theory Spec2Isabelle
  imports Main
begin

section \<open>S3 URL utilities of libdispatch/ds3util.c\<close>

text \<open>
  A shallow embedding of \<^verbatim>\<open>src/libdispatch/ds3util.c\<close>: the URL rebuilder
  \<^verbatim>\<open>NC_s3urlrebuild\<close>, the descriptor builder \<^verbatim>\<open>NC_s3urlprocess\<close>, the
  predicate \<^verbatim>\<open>NC_iss3\<close> and the descriptor helpers \<^verbatim>\<open>NC_s3clone\<close> and
  \<^verbatim>\<open>NC_s3clear\<close>.

  C strings are \<open>string\<close>, a \<^verbatim>\<open>char*\<close> that may be \<^verbatim>\<open>NULL\<close> is a
  \<open>string option\<close>, a pointer argument that may be \<^verbatim>\<open>NULL\<close> is an option.
  An \<^verbatim>\<open>int\<close> status is \<open>nc_error + 'a\<close>: \<open>Inl\<close> carries the error code,
  \<open>Inr\<close> stands for \<^verbatim>\<open>NC_NOERR\<close>.
\<close>

subsection \<open>Status codes and data\<close>

text \<open>
  The error codes the file returns itself, and \<open>NC_ERR n\<close> for any other code a
  collaborator may hand back. \<open>NC_ABORT\<close> is not a return value: it marks the point
  where the process dies, on a failed \<^verbatim>\<open>assert\<close> or on the use of a \<^verbatim>\<open>NULL\<close>
  pointer (\<^verbatim>\<open>strdup(NULL)\<close> at line 152). The caller sees no state after it; what the
  model returns beside it is the state at that point.
\<close>

datatype nc_error = NC_EURL | NC_ENOMEM | NC_ES3 | NC_ERR int | NC_ABORT

text \<open>\<^verbatim>\<open>NCS3SVC\<close>: the service kind (unknown, Amazon S3, Google S3-compatible).\<close>

datatype NCS3SVC = NCS3UNK | NCS3 | NCS3GS

text \<open>
  \<^verbatim>\<open>NCURI\<close>, the parsed URL. The file reads and writes \<^verbatim>\<open>protocol\<close>,
  \<^verbatim>\<open>host\<close> and \<^verbatim>\<open>path\<close>; \<^verbatim>\<open>uri\<close> is the full string that
  \<^verbatim>\<open>ncurirebuild\<close> refreshes. \<^verbatim>\<open>protocol\<close> is handed to \<^verbatim>\<open>strcmp\<close>
  unchecked, so it is a plain string; \<^verbatim>\<open>host\<close> and \<^verbatim>\<open>path\<close> may be
  \<^verbatim>\<open>NULL\<close>. \<open>modeflags\<close> is the mode-flag list attached to the URL, which only
  the collaborator \<^verbatim>\<open>NC_testmode\<close> reads.
\<close>

record NCURI =
  uri :: "string option"
  protocol :: string
  host :: "string option"
  path :: "string option"
  modeflags :: "string list"

text \<open>\<^verbatim>\<open>NCS3INFO\<close>, the object-store descriptor (its host field is \<open>s3host\<close> here).\<close>

record NCS3INFO =
  s3host :: "string option"
  region :: "string option"
  bucket :: "string option"
  rootkey :: "string option"
  profile :: "string option"
  svc :: NCS3SVC

text \<open>
  The collaborators the file calls and whose code is elsewhere in the library are
  parameters of the model:
  \<^item> \<^verbatim>\<open>NC_split_delim(arg, delim, segments)\<close>: a status and the segments pushed;
  \<^item> \<^verbatim>\<open>NC_join(segments, &path)\<close>: a status and the joined string;
  \<^item> \<^verbatim>\<open>NC_getdefaults3region(url, &region0)\<close> and
    \<^verbatim>\<open>NC_getactives3profile(url, &profile0)\<close>: a status and a string that may be
    \<^verbatim>\<open>NULL\<close>;
  \<^item> \<^verbatim>\<open>NC_testmode(uri, tag)\<close>;
  \<^item> \<open>ncuribuild\<close>: the full string \<^verbatim>\<open>ncurirebuild\<close> derives from a URL's parts;
  \<^item> \<open>alloc_ok n\<close>: the allocation made at source line \<open>n\<close> succeeds. Only the
    allocations whose failure the source tests and reports as \<^verbatim>\<open>NC_ENOMEM\<close> can
    fail in the model (lines 133, 139, 191, 276 to 282); the others are taken to succeed.
\<close>

record s3ext =
  NC_split_delim :: "string option \<Rightarrow> char \<Rightarrow> nc_error + string list"
  NC_join :: "string list \<Rightarrow> nc_error + string"
  NC_getdefaults3region :: "NCURI \<Rightarrow> nc_error + string option"
  NC_getactives3profile :: "NCURI \<Rightarrow> nc_error + string option"
  NC_testmode :: "NCURI \<Rightarrow> string \<Rightarrow> bool"
  ncuribuild :: "NCURI \<Rightarrow> string"
  alloc_ok :: "nat \<Rightarrow> bool"

definition AWSHOST :: string where
  "AWSHOST = ''.amazonaws.com''"

definition GOOGLEHOST :: string where
  "GOOGLEHOST = ''storage.googleapis.com''"

subsection \<open>C library and list primitives\<close>

text \<open>\<^verbatim>\<open>tolower\<close> in the C locale: the 26 upper-case letters map to their lower-case ones.\<close>

definition tolower :: "char \<Rightarrow> char" where
  "tolower c =
     (case map_of (zip ''ABCDEFGHIJKLMNOPQRSTUVWXYZ'' ''abcdefghijklmnopqrstuvwxyz'') c of
        None \<Rightarrow> c
      | Some l \<Rightarrow> l)"

text \<open>
  The source only tests the results of \<^verbatim>\<open>strcmp\<close> and \<^verbatim>\<open>strcasecmp\<close>
  against 0, so the model keeps that much: 0 for equal strings (equal after lower-casing),
  1 otherwise.
\<close>

definition strcmp :: "string \<Rightarrow> string \<Rightarrow> int" where
  "strcmp a b = (if a = b then 0 else 1)"

definition strcasecmp :: "string \<Rightarrow> string \<Rightarrow> int" where
  "strcasecmp a b = (if map tolower a = map tolower b then 0 else 1)"

text \<open>\<^verbatim>\<open>nulldup(s)\<close> where the source does not test the copy.\<close>

definition nulldup :: "string option \<Rightarrow> string option" where
  "nulldup s = s"

text \<open>\<^verbatim>\<open>nulldup(s)\<close> at line \<open>n\<close> of \<^verbatim>\<open>NC_s3clone\<close>, where a \<^verbatim>\<open>NULL\<close> copy is tested.\<close>

definition nulldup_at :: "s3ext \<Rightarrow> nat \<Rightarrow> string option \<Rightarrow> string option" where
  "nulldup_at ext n s =
     (case s of None \<Rightarrow> None | Some v \<Rightarrow> if alloc_ok ext n then Some v else None)"

text \<open>
  \<^verbatim>\<open>nclistremove(l, i)\<close>: the element at \<open>i\<close> (\<^verbatim>\<open>NULL\<close> out of range) and
  the list without it. \<^verbatim>\<open>nclistget(l, i)\<close> is called in range only and is
  \<open>l ! i\<close> there.
\<close>

definition nclistremove :: "string list \<Rightarrow> nat \<Rightarrow> string option \<times> string list" where
  "nclistremove l i =
     (if i < length l then (Some (l ! i), take i l @ drop (Suc i) l) else (None, l))"

text \<open>\<^verbatim>\<open>endswith\<close>, lines 221 to 232.\<close>

definition endswith :: "string option \<Rightarrow> string option \<Rightarrow> bool" where
  "endswith s suffix =
     (case s of None \<Rightarrow> False | Some str \<Rightarrow>
      (case suffix of None \<Rightarrow> False | Some suf \<Rightarrow>
        (let ls = int (length str); lsf = int (length suf); delta = ls - lsf
         in if delta < 0 then False
            else if drop (nat delta) str = suf then True else False)))"

subsection \<open>Parsed URLs on the heap\<close>

text \<open>
  \<^verbatim>\<open>NC_s3urlrebuild\<close> receives a pointer to the caller's URL and returns a pointer
  to a new one, which it fills in place. The URLs live in a heap: a list of cells, an
  address is an index, a freed cell is \<open>None\<close>, and an allocation takes the next index.
\<close>

type_synonym uriheap = "NCURI option list"

definition uri_at :: "uriheap \<Rightarrow> nat \<Rightarrow> NCURI option" where
  "uri_at h a = (if a < length h then h ! a else None)"

definition cell_update :: "uriheap \<Rightarrow> nat \<Rightarrow> (NCURI \<Rightarrow> NCURI) \<Rightarrow> uriheap" where
  "cell_update h a f = (case uri_at h a of None \<Rightarrow> h | Some u \<Rightarrow> h[a := Some (f u)])"

text \<open>\<^verbatim>\<open>ncuriclone\<close> (line 191): a fresh cell holding a copy, or \<^verbatim>\<open>NULL\<close>.\<close>

definition ncuriclone :: "s3ext \<Rightarrow> uriheap \<Rightarrow> nat \<Rightarrow> (nat \<times> uriheap) option" where
  "ncuriclone ext h a =
     (case uri_at h a of None \<Rightarrow> None
      | Some u \<Rightarrow> if alloc_ok ext 191 then Some (length h, h @ [Some u]) else None)"

definition ncurisetprotocol :: "uriheap \<Rightarrow> nat \<Rightarrow> string \<Rightarrow> uriheap" where
  "ncurisetprotocol h a v = cell_update h a (\<lambda>u. u\<lparr>protocol := v\<rparr>)"

definition ncurisethost :: "uriheap \<Rightarrow> nat \<Rightarrow> string \<Rightarrow> uriheap" where
  "ncurisethost h a v = cell_update h a (\<lambda>u. u\<lparr>host := Some v\<rparr>)"

definition ncurisetpath :: "uriheap \<Rightarrow> nat \<Rightarrow> string \<Rightarrow> uriheap" where
  "ncurisetpath h a v = cell_update h a (\<lambda>u. u\<lparr>path := Some v\<rparr>)"

definition ncurirebuild :: "s3ext \<Rightarrow> uriheap \<Rightarrow> nat \<Rightarrow> uriheap" where
  "ncurirebuild ext h a = cell_update h a (\<lambda>u. u\<lparr>uri := Some (ncuribuild ext u)\<rparr>)"

definition ncurifree :: "uriheap \<Rightarrow> nat option \<Rightarrow> uriheap" where
  "ncurifree h p =
     (case p of None \<Rightarrow> h | Some a \<Rightarrow> if a < length h then h[a := None] else h)"

subsection \<open>NC_s3urlrebuild, lines 52 to 219\<close>

text \<open>
  Lines 93 to 143: the host is reduced to a bucket, a region, a host to pass through and
  a service kind, each unknown (\<open>None\<close>, \<open>NCS3UNK\<close>) unless the URL's shape gives it.
  The result is \<open>(bucket, region, host, svc)\<close>.
\<close>

definition classify_host ::
  "s3ext \<Rightarrow> NCURI \<Rightarrow> string list
     \<Rightarrow> nc_error + (string option \<times> string option \<times> string option \<times> NCS3SVC)" where
  "classify_host ext url hostsegments =
     (if strcmp (protocol url) ''s3'' = 0 \<and> length hostsegments = 1 then
        Inr (fst (nclistremove hostsegments 0), None, None, NCS3)
      else if strcmp (protocol url) ''gs3'' = 0 \<and> length hostsegments = 1 then
        Inr (fst (nclistremove hostsegments 0), None, None, NCS3GS)
      else if endswith (host url) (Some AWSHOST) then
        (if length hostsegments = 3 then Inr (None, None, None, NCS3)
         else if length hostsegments = 4 then
           (if strcasecmp (hostsegments ! 0) ''s3'' \<noteq> 0 then
              Inr (fst (nclistremove hostsegments 0), None, None, NCS3)
            else if strcasecmp (hostsegments ! 0) ''s3'' = 0 then
              Inr (None, fst (nclistremove hostsegments 1), None, NCS3)
            else Inl NC_EURL)
         else if length hostsegments = 5 then
           (if strcasecmp (hostsegments ! 1) ''s3'' \<noteq> 0 then Inl NC_EURL
            else
              (let (region, hostsegments1) = nclistremove hostsegments 2;
                   (bucket, hostsegments2) = nclistremove hostsegments1 0
               in Inr (bucket, region, None, NCS3)))
         else Inl NC_EURL)
      else if strcasecmp (case host url of None \<Rightarrow> [] | Some hs \<Rightarrow> hs) GOOGLEHOST = 0 then
        (if alloc_ok ext 133 then Inr (None, None, host url, NCS3GS) else Inl NC_ENOMEM)
      else
        (if alloc_ok ext 139 then Inr (None, None, host url, NCS3UNK) else Inl NC_ENOMEM))"

text \<open>
  Lines 145 to 154: the region is the one from the host, else the descriptor's, else the
  default resolver's; a failing resolver gives its own status. When the resolver returns
  \<^verbatim>\<open>NC_NOERR\<close> and a \<^verbatim>\<open>NULL\<close> region, line 152 calls \<^verbatim>\<open>strdup(NULL)\<close> and
  the process dies there, before the test of line 154. That test is reached with a
  \<^verbatim>\<open>NULL\<close> region only when an unchecked copy fails, which the model leaves out, so
  no run of the model returns \<^verbatim>\<open>NC_ES3\<close> from this step.
\<close>

definition resolve_region ::
  "s3ext \<Rightarrow> NCURI \<Rightarrow> NCS3INFO option \<Rightarrow> string option \<Rightarrow> nc_error + string" where
  "resolve_region ext url s3 region0 =
     (let region1 =
        (case s3 of None \<Rightarrow> region0
         | Some d \<Rightarrow> if region0 = None then nulldup (region d) else region0)
      in case region1 of
           Some r \<Rightarrow> Inr r
         | None \<Rightarrow>
             (case NC_getdefaults3region ext url of
                Inl e \<Rightarrow> Inl e
              | Inr None \<Rightarrow> Inl NC_ABORT
              | Inr (Some r) \<Rightarrow> Inr r))"

text \<open>
  Lines 156 to 162: the bucket is the one from the host, else the first path segment
  (taken out of the segment list), else the descriptor's; none is \<^verbatim>\<open>NC_ES3\<close>.
  The result is the bucket and the remaining path segments.
\<close>

definition resolve_bucket ::
  "NCS3INFO option \<Rightarrow> string option \<Rightarrow> string list \<Rightarrow> nc_error + (string \<times> string list)" where
  "resolve_bucket s3 bucket0 pathsegments =
     (let (bucket1, pathsegments1) =
        (if bucket0 = None \<and> length pathsegments > 0 then nclistremove pathsegments 0
         else (bucket0, pathsegments));
          bucket2 =
        (case s3 of None \<Rightarrow> bucket1
         | Some d \<Rightarrow> if bucket1 = None then nulldup (bucket d) else bucket1)
      in case bucket2 of None \<Rightarrow> Inl NC_ES3 | Some b \<Rightarrow> Inr (b, pathsegments1))"

text \<open>Lines 164 to 175: the revised host.\<close>

definition revised_host :: "NCS3SVC \<Rightarrow> string \<Rightarrow> string option \<Rightarrow> string option" where
  "revised_host sv reg host0 =
     (if sv = NCS3 then Some (''s3.'' @ reg @ AWSHOST)
      else if sv = NCS3GS then Some GOOGLEHOST
      else host0)"

text \<open>Lines 177 to 188: the revised path, the bucket first and then each segment.\<close>

definition revised_path :: "string \<Rightarrow> string list \<Rightarrow> string" where
  "revised_path bkt pathsegments =
     (''/'' @ bkt) @ concat (map (\<lambda>seg. ''/'' @ seg) pathsegments)"

text \<open>
  Lines 70 to 188 together, on the URL the pointer refers to: the result is
  \<open>(bucket, region, svc, host, path)\<close>.
\<close>

definition rebuild_parts ::
  "s3ext \<Rightarrow> NCURI \<Rightarrow> NCS3INFO option
     \<Rightarrow> nc_error + (string \<times> string \<times> NCS3SVC \<times> string option \<times> string)" where
  "rebuild_parts ext url s3 =
     (case NC_split_delim ext (host url) CHR ''.'' of
        Inl e \<Rightarrow> Inl e
      | Inr hostsegments \<Rightarrow>
     (case NC_split_delim ext (path url) CHR ''/'' of
        Inl e \<Rightarrow> Inl e
      | Inr pathsegments \<Rightarrow>
     (if host url = None \<or> host url = Some [] then Inl NC_EURL
      else
     (case classify_host ext url hostsegments of
        Inl e \<Rightarrow> Inl e
      | Inr (bucket0, region0, host0, sv) \<Rightarrow>
     (case resolve_region ext url s3 region0 of
        Inl e \<Rightarrow> Inl e
      | Inr reg \<Rightarrow>
     (case resolve_bucket s3 bucket0 pathsegments of
        Inl e \<Rightarrow> Inl e
      | Inr (bkt, pathsegments1) \<Rightarrow>
          Inr (bkt, reg, sv, revised_host sv reg host0, revised_path bkt pathsegments1)))))))"

text \<open>Lines 204 to 208: the descriptor, if one was passed, takes bucket, region and service.\<close>

definition write_s3 :: "NCS3INFO option \<Rightarrow> string \<Rightarrow> string \<Rightarrow> NCS3SVC \<Rightarrow> NCS3INFO option" where
  "write_s3 s3 bkt reg sv =
     (case s3 of
        None \<Rightarrow> None
      | Some d \<Rightarrow> Some (d\<lparr>bucket := Some bkt, region := Some reg, svc := sv\<rparr>))"

text \<open>
  The whole function. \<open>url\<close> is the caller's pointer, \<open>s3\<close> the descriptor it may
  pass (returned as the call leaves it), \<open>newurlp\<close> says whether a result pointer was
  given. The result is the status with the pointer stored through \<^verbatim>\<open>newurlp\<close>,
  the heap and the descriptor after the call. A pointer to no live URL is treated as
  \<^verbatim>\<open>NULL\<close>.
\<close>

definition NC_s3urlrebuild ::
  "s3ext \<Rightarrow> uriheap \<Rightarrow> nat option \<Rightarrow> NCS3INFO option \<Rightarrow> bool
     \<Rightarrow> (nc_error + nat option) \<times> uriheap \<times> NCS3INFO option" where
  "NC_s3urlrebuild ext h url s3 newurlp =
     (case url of
        None \<Rightarrow> (Inl NC_EURL, h, s3)
      | Some a \<Rightarrow>
     (case uri_at h a of
        None \<Rightarrow> (Inl NC_EURL, h, s3)
      | Some u \<Rightarrow>
     (case rebuild_parts ext u s3 of
        Inl e \<Rightarrow> (Inl e, h, s3)
      | Inr (bkt, reg, sv, host1, path1) \<Rightarrow>
     (case ncuriclone ext h a of
        None \<Rightarrow> (Inl NC_ENOMEM, h, s3)
      | Some (newurl, h1) \<Rightarrow>
     (case host1 of
        None \<Rightarrow> (Inl NC_ABORT, ncurisetprotocol h1 newurl ''https'', s3)
      | Some hst \<Rightarrow>
          (let h2 = ncurisetprotocol h1 newurl ''https'';
               h3 = ncurisethost h2 newurl hst;
               h4 = ncurisetpath h3 newurl path1;
               h5 = ncurirebuild ext h4 newurl;
               s3' = write_s3 s3 bkt reg sv
           in if newurlp then (Inr (Some newurl), h5, s3')
              else (Inr None, ncurifree h5 (Some newurl), s3')))))))"

text \<open>
  What lines 191 to 198 leave in the new cell: the copy of \<open>u\<close> with the scheme
  \<^verbatim>\<open>https\<close>, the revised host and path, and the full string rebuilt from them.
\<close>

definition rebuilt_url :: "s3ext \<Rightarrow> NCURI \<Rightarrow> string \<Rightarrow> string \<Rightarrow> NCURI" where
  "rebuilt_url ext u hst pth =
     (let v = u\<lparr>protocol := ''https'', host := Some hst, path := Some pth\<rparr>
      in v\<lparr>uri := Some (ncuribuild ext v)\<rparr>)"

subsection \<open>NC_s3urlprocess, lines 237 to 269\<close>

text \<open>
  The list \<^verbatim>\<open>pathsegments\<close> that \<^verbatim>\<open>NC_s3urlprocess\<close> allocates at line 256 and
  frees at line 267 lives in a heap of its own, built like the heap of URLs: a cell holds
  the elements of a list, a freed cell is \<open>None\<close>. (The lists and buffers local to
  \<^verbatim>\<open>NC_s3urlrebuild\<close> are values of the model.)
\<close>

type_synonym listheap = "string list option list"

definition list_at :: "listheap \<Rightarrow> nat \<Rightarrow> string list option" where
  "list_at lh a = (if a < length lh then lh ! a else None)"

definition nclistnew :: "listheap \<Rightarrow> nat \<times> listheap" where
  "nclistnew lh = (length lh, lh @ [Some []])"

text \<open>The segments a successful \<^verbatim>\<open>NC_split_delim\<close> pushes onto the list at \<open>a\<close>.\<close>

definition nclistpush_all :: "listheap \<Rightarrow> nat \<Rightarrow> string list \<Rightarrow> listheap" where
  "nclistpush_all lh a segs =
     (case list_at lh a of None \<Rightarrow> lh | Some l \<Rightarrow> lh[a := Some (l @ segs)])"

definition nclistlength :: "listheap \<Rightarrow> nat \<Rightarrow> nat" where
  "nclistlength lh a = (case list_at lh a of None \<Rightarrow> 0 | Some l \<Rightarrow> length l)"

text \<open>\<^verbatim>\<open>nclistremove\<close> on the list at \<open>a\<close>: the element goes, the cell keeps the rest.\<close>

definition nclistremove_at :: "listheap \<Rightarrow> nat \<Rightarrow> nat \<Rightarrow> string option \<times> listheap" where
  "nclistremove_at lh a i =
     (case list_at lh a of
        None \<Rightarrow> (None, lh)
      | Some l \<Rightarrow> (fst (nclistremove l i), lh[a := Some (snd (nclistremove l i))]))"

definition nclistfreeall :: "listheap \<Rightarrow> nat option \<Rightarrow> listheap" where
  "nclistfreeall lh p =
     (case p of None \<Rightarrow> lh | Some a \<Rightarrow> if a < length lh then lh[a := None] else lh)"

text \<open>
  The arguments are those of \<open>NC_s3urlrebuild\<close> and the heap of lists; the result is the
  status with the pointer stored through \<^verbatim>\<open>newurlp\<close>, the two heaps and the descriptor
  after the call. The descriptor is updated in place as the function goes, so the
  descriptor returned on a failure is the one the failing step found. At \<^verbatim>\<open>done\<close>,
  \<^verbatim>\<open>url2\<close> is freed unless it went to the caller, and \<^verbatim>\<open>pathsegments\<close> is freed.
  The two \<^verbatim>\<open>strdup\<close> calls (lines 250 and 255) are taken to succeed; a \<^verbatim>\<open>NULL\<close>
  argument to one of them is \<open>NC_ABORT\<close>, as is a rebuilder that reports success
  without a URL. \<^verbatim>\<open>NC_join\<close> is taken to store the joined string only when it
  returns \<^verbatim>\<open>NC_NOERR\<close>.
\<close>

definition NC_s3urlprocess ::
  "s3ext \<Rightarrow> uriheap \<Rightarrow> listheap \<Rightarrow> nat option \<Rightarrow> NCS3INFO option \<Rightarrow> bool
     \<Rightarrow> (nc_error + nat option) \<times> uriheap \<times> listheap \<times> NCS3INFO option" where
  "NC_s3urlprocess ext h lh url s3 newurlp =
     (case url of
        None \<Rightarrow> (Inl NC_EURL, h, lh, s3)
      | Some a \<Rightarrow>
     (case s3 of
        None \<Rightarrow> (Inl NC_EURL, h, lh, s3)
      | Some d \<Rightarrow>
     (case uri_at h a of
        None \<Rightarrow> (Inl NC_EURL, h, lh, s3)
      | Some u \<Rightarrow>
     (case NC_getactives3profile ext u of
        Inl e \<Rightarrow> (Inl e, h, lh, s3)
      | Inr profile0 \<Rightarrow>
          (let d1 = d\<lparr>profile := Some (case profile0 of None \<Rightarrow> ''no'' | Some p \<Rightarrow> p)\<rparr>
           in
     (case NC_s3urlrebuild ext h url (Some d1) True of
        (Inl e, h1, s3a) \<Rightarrow> (Inl e, h1, lh, s3a)
      | (Inr url2, h1, s3a) \<Rightarrow>
     (case s3a of
        None \<Rightarrow> (Inl NC_ABORT, h1, lh, s3a)
      | Some d2 \<Rightarrow>
     (case (case url2 of None \<Rightarrow> None | Some a2 \<Rightarrow> uri_at h1 a2) of
        None \<Rightarrow> (Inl NC_ABORT, h1, lh, s3a)
      | Some u2 \<Rightarrow>
     (case host u2 of
        None \<Rightarrow> (Inl NC_ABORT, h1, lh, s3a)
      | Some host2 \<Rightarrow>
          (let d3 = d2\<lparr>s3host := Some host2\<rparr>;
               (pathsegments, lh1) = nclistnew lh
           in
     (case NC_split_delim ext (path u2) CHR ''/'' of
        Inl e \<Rightarrow> (Inl e, ncurifree h1 url2, nclistfreeall lh1 (Some pathsegments), Some d3)
      | Inr segs \<Rightarrow>
          (let lh2 = nclistpush_all lh1 pathsegments segs;
               lh3 = (if nclistlength lh2 pathsegments > 0
                      then snd (nclistremove_at lh2 pathsegments 0) else lh2)
           in
     (case NC_join ext (case list_at lh3 pathsegments of None \<Rightarrow> [] | Some l \<Rightarrow> l) of
        Inl e \<Rightarrow> (Inl e, ncurifree h1 url2, nclistfreeall lh3 (Some pathsegments), Some d3)
      | Inr key \<Rightarrow>
          (let d4 = d3\<lparr>rootkey := Some key\<rparr>
           in if newurlp then (Inr url2, h1, nclistfreeall lh3 (Some pathsegments), Some d4)
              else (Inr None, ncurifree h1 url2, nclistfreeall lh3 (Some pathsegments),
                    Some d4)))))))))))))))"

subsection \<open>NC_s3clone and NC_s3clear, lines 271 to 300\<close>

text \<open>
  \<open>news3p\<close> is the result pointer: \<open>None\<close> for \<^verbatim>\<open>NULL\<close>, else the value the
  slot holds. The result is the status and the slot after the call. \<^verbatim>\<open>calloc\<close>
  zeroes the new descriptor, and \<^verbatim>\<open>svc\<close> is not copied.
\<close>

definition calloc_NCS3INFO :: NCS3INFO where
  "calloc_NCS3INFO =
     \<lparr>s3host = None, region = None, bucket = None, rootkey = None, profile = None,
      svc = NCS3UNK\<rparr>"

definition NC_s3clone ::
  "s3ext \<Rightarrow> NCS3INFO option \<Rightarrow> NCS3INFO option option
     \<Rightarrow> (nc_error + unit) \<times> NCS3INFO option option" where
  "NC_s3clone ext s3 news3p =
     (case news3p of
        None \<Rightarrow> (Inr (), None)
      | Some slot \<Rightarrow>
     (case s3 of
        None \<Rightarrow> (Inr (), Some None)
      | Some d \<Rightarrow>
     (if \<not> alloc_ok ext 276 then (Inl NC_ENOMEM, news3p)
      else
     (case nulldup_at ext 278 (s3host d) of
        None \<Rightarrow> (Inl NC_ENOMEM, news3p)
      | Some hst \<Rightarrow>
     (case nulldup_at ext 279 (region d) of
        None \<Rightarrow> (Inl NC_ENOMEM, news3p)
      | Some reg \<Rightarrow>
     (case nulldup_at ext 280 (bucket d) of
        None \<Rightarrow> (Inl NC_ENOMEM, news3p)
      | Some bkt \<Rightarrow>
     (case nulldup_at ext 281 (rootkey d) of
        None \<Rightarrow> (Inl NC_ENOMEM, news3p)
      | Some key \<Rightarrow>
     (case nulldup_at ext 282 (profile d) of
        None \<Rightarrow> (Inl NC_ENOMEM, news3p)
      | Some prof \<Rightarrow>
          (Inr (), Some (Some (calloc_NCS3INFO
             \<lparr>s3host := Some hst, region := Some reg, bucket := Some bkt,
              rootkey := Some key, profile := Some prof\<rparr>)))))))))))"

definition NC_s3clear :: "NCS3INFO option \<Rightarrow> (nc_error + unit) \<times> NCS3INFO option" where
  "NC_s3clear s3 =
     (case s3 of
        None \<Rightarrow> (Inr (), None)
      | Some d \<Rightarrow>
          (Inr (), Some (d\<lparr>s3host := None, region := None, bucket := None,
                           rootkey := None, profile := None\<rparr>)))"

subsection \<open>NC_iss3, lines 306 to 325\<close>

definition NC_iss3 :: "s3ext \<Rightarrow> NCURI option \<Rightarrow> bool" where
  "NC_iss3 ext uri0 =
     (case uri0 of
        None \<Rightarrow> False
      | Some u \<Rightarrow>
          (if strcasecmp (protocol u) ''s3'' = 0 then True
           else if strcasecmp (protocol u) ''gs3'' = 0 then True
           else if NC_testmode ext u ''s3'' then True
           else if NC_testmode ext u ''gs3'' then True
           else (case host u of
                   None \<Rightarrow> False
                 | Some hst \<Rightarrow>
                     (if endswith (host u) (Some AWSHOST) then True
                      else if strcasecmp hst GOOGLEHOST = 0 then True
                      else False))))"

subsection \<open>A concrete set of collaborators\<close>

text \<open>
  Modelled from the spec: \<^verbatim>\<open>NC_split_delim\<close>, whose code is not in this file. The
  spec gives it as "splitOnDelimiter(string, delimiter) -> ordered sequence of string", with
  empty segments "not significant carriers of data": the segments are the non-empty runs
  between delimiters, in order, and a \<^verbatim>\<open>NULL\<close> string has none.
\<close>

fun split_segments :: "char \<Rightarrow> string \<Rightarrow> string \<Rightarrow> string list" where
  "split_segments delim cur [] = (if cur = [] then [] else [cur])"
| "split_segments delim cur (c # cs) =
     (if c = delim then
        (if cur = [] then split_segments delim [] cs
         else cur # split_segments delim [] cs)
      else split_segments delim (cur @ [c]) cs)"

definition spec_split_delim :: "string option \<Rightarrow> char \<Rightarrow> nc_error + string list" where
  "spec_split_delim arg delim =
     (case arg of None \<Rightarrow> Inr [] | Some str \<Rightarrow> Inr (split_segments delim [] str))"

text \<open>
  Modelled from the spec: \<^verbatim>\<open>NC_join\<close>, whose code is not in this file. The spec has
  the remaining segments slash-joined, "empty string if no remaining segments", and
  \<^verbatim>\<open>/mybucket/a/b/c\<close> give the root key \<^verbatim>\<open>a/b/c\<close>.
\<close>

fun join_segments :: "string list \<Rightarrow> string" where
  "join_segments [] = []"
| "join_segments [seg] = seg"
| "join_segments (seg # segs) = seg @ ''/'' @ join_segments segs"

definition spec_join :: "string list \<Rightarrow> nc_error + string" where
  "spec_join segments = Inr (join_segments segments)"

text \<open>
  Modelled from the spec: the string \<^verbatim>\<open>ncurirebuild\<close> derives, whose code is not in
  this file. The spec names scheme, host and path as the parts of a parsed URL.
\<close>

definition spec_ncuribuild :: "NCURI \<Rightarrow> string" where
  "spec_ncuribuild u =
     protocol u @ ''://'' @ (case host u of None \<Rightarrow> [] | Some hst \<Rightarrow> hst)
       @ (case path u of None \<Rightarrow> [] | Some pth \<Rightarrow> pth)"

text \<open>
  Modelled from the spec: \<^verbatim>\<open>NC_testmode\<close>, whose code is not in this file: the
  mode-flag list attached to the URL contains the tag.
\<close>

definition spec_testmode :: "NCURI \<Rightarrow> string \<Rightarrow> bool" where
  "spec_testmode u tag = (tag \<in> set (modeflags u))"

text \<open>
  The collaborators of a process whose default region is \<open>dflt\<close>, with no active
  profile and an allocator that never fails.
\<close>

definition spec_ext :: "string option \<Rightarrow> s3ext" where
  "spec_ext dflt =
     \<lparr>NC_split_delim = spec_split_delim,
      NC_join = spec_join,
      NC_getdefaults3region = (\<lambda>u. Inr dflt),
      NC_getactives3profile = (\<lambda>u. Inr None),
      NC_testmode = spec_testmode,
      ncuribuild = spec_ncuribuild,
      alloc_ok = (\<lambda>n. True)\<rparr>"

text \<open>The same collaborators with a default-region resolver that fails with the status \<open>e\<close>.\<close>

definition spec_ext_failing :: "nc_error \<Rightarrow> s3ext" where
  "spec_ext_failing e = (spec_ext None)\<lparr>NC_getdefaults3region := (\<lambda>u. Inl e)\<rparr>"

text \<open>A parsed URL with no mode flags.\<close>

definition mk_url :: "string \<Rightarrow> string \<Rightarrow> string \<Rightarrow> NCURI" where
  "mk_url prot hst pth =
     \<lparr>uri = Some (prot @ ''://'' @ hst @ pth), protocol = prot, host = Some hst,
      path = Some pth, modeflags = []\<rparr>"

text \<open>
  What the rebuilder needs of \<^verbatim>\<open>NC_split_delim\<close>: splitting the join of non-empty
  segments that are free of the delimiter gives the segments back, whether the string
  starts with a delimiter (a path) or not (a host).
\<close>

definition splits_joined :: "s3ext \<Rightarrow> bool" where
  "splits_joined ext \<longleftrightarrow>
     (\<forall>delim segs.
        list_all (\<lambda>seg. seg \<noteq> [] \<and> delim \<notin> set seg) segs \<longrightarrow>
          NC_split_delim ext (Some (concat (map (\<lambda>seg. delim # seg) segs))) delim = Inr segs \<and>
          NC_split_delim ext (Some (tl (concat (map (\<lambda>seg. delim # seg) segs)))) delim = Inr segs)"

subsection \<open>The priority orders, in the words of the specification\<close>

text \<open>
  The region: the value extracted from the host; else the prior descriptor's region;
  else the default resolver's answer, whose failure is the call's failure and whose empty
  answer is \<^verbatim>\<open>NC_ES3\<close>.
\<close>

definition prior_region :: "NCS3INFO option \<Rightarrow> string option" where
  "prior_region s3 = (case s3 of None \<Rightarrow> None | Some d \<Rightarrow> region d)"

definition region_by_priority ::
  "string option \<Rightarrow> string option \<Rightarrow> nc_error + string option \<Rightarrow> nc_error + string" where
  "region_by_priority from_host from_prior from_default =
     (case from_host of
        Some r \<Rightarrow> Inr r
      | None \<Rightarrow>
          (case from_prior of
             Some r \<Rightarrow> Inr r
           | None \<Rightarrow>
               (case from_default of
                  Inl e \<Rightarrow> Inl e
                | Inr None \<Rightarrow> Inl NC_ES3
                | Inr (Some r) \<Rightarrow> Inr r)))"

text \<open>
  The bucket: the value extracted from the host; else the first path segment, which
  leaves the segment sequence; else the prior descriptor's bucket; else \<^verbatim>\<open>NC_ES3\<close>.
  The result is the bucket and the segments that remain.
\<close>

definition prior_bucket :: "NCS3INFO option \<Rightarrow> string option" where
  "prior_bucket s3 = (case s3 of None \<Rightarrow> None | Some d \<Rightarrow> bucket d)"

definition bucket_by_priority ::
  "string option \<Rightarrow> string list \<Rightarrow> string option \<Rightarrow> nc_error + (string \<times> string list)" where
  "bucket_by_priority from_host pathsegments from_prior =
     (case from_host of
        Some b \<Rightarrow> Inr (b, pathsegments)
      | None \<Rightarrow>
          (case pathsegments of
             seg # rest \<Rightarrow> Inr (seg, rest)
           | [] \<Rightarrow>
               (case from_prior of
                  Some b \<Rightarrow> Inr (b, [])
                | None \<Rightarrow> Inl NC_ES3)))"

section \<open>Properties\<close>

subsection \<open>String tests\<close>

lemma endswith_iff: "endswith (Some str) (Some suf) \<longleftrightarrow> (\<exists>pre. str = pre @ suf)"
proof
  assume "endswith (Some str) (Some suf)"
  then have "drop (length str - length suf) str = suf"
    by (simp add: endswith_def Let_def nat_diff_distrib split: if_splits)
  then have "str = take (length str - length suf) str @ suf"
    by (metis append_take_drop_id)
  then show "\<exists>pre. str = pre @ suf" ..
next
  assume "\<exists>pre. str = pre @ suf"
  then obtain pre where "str = pre @ suf" ..
  then show "endswith (Some str) (Some suf)"
    by (simp add: endswith_def Let_def)
qed

subsection \<open>The heap and the steps of the rebuilder\<close>

lemma uri_at_append_old: "a < length h \<Longrightarrow> uri_at (h @ cs) a = uri_at h a"
  by (simp add: uri_at_def nth_append)

lemma cell_update_new: "cell_update (h @ [Some u]) (length h) f = h @ [Some (f u)]"
  by (simp add: cell_update_def uri_at_def)

lemma fill_new_cell:
  "ncurirebuild ext
     (ncurisetpath (ncurisethost (ncurisetprotocol (h @ [Some u]) (length h) ''https'')
        (length h) hst) (length h) pth) (length h)
   = h @ [Some (rebuilt_url ext u hst pth)]"
  by (simp add: ncurirebuild_def ncurisetpath_def ncurisethost_def ncurisetprotocol_def
      cell_update_new rebuilt_url_def Let_def)

lemma ncurifree_new: "ncurifree (h @ [c]) (Some (length h)) = h @ [None]"
  by (simp add: ncurifree_def)

lemma classify_host_unknown:
  "classify_host ext u hs = Inr (b, r, h0, sv) \<Longrightarrow> sv = NCS3UNK \<Longrightarrow> h0 = host u"
  by (auto simp add: classify_host_def Let_def split: if_splits prod.splits)

lemma rebuild_parts_host:
  assumes "rebuild_parts ext u s3 = Inr (bkt, reg, sv, ho, pth)"
  shows "\<exists>hst. ho = Some hst"
proof (cases sv)
  case NCS3UNK
  from assms obtain hs b0 r0 h0 where
    "host u \<noteq> None" "classify_host ext u hs = Inr (b0, r0, h0, sv)" "ho = revised_host sv reg h0"
    by (auto simp add: rebuild_parts_def split: sum.splits if_splits prod.splits)
  with NCS3UNK show ?thesis
    by (auto simp add: revised_host_def dest: classify_host_unknown)
next
  case NCS3
  with assms show ?thesis
    by (auto simp add: rebuild_parts_def revised_host_def split: sum.splits if_splits prod.splits)
next
  case NCS3GS
  with assms show ?thesis
    by (auto simp add: rebuild_parts_def revised_host_def split: sum.splits if_splits prod.splits)
qed

lemma NC_s3urlrebuild_fail:
  "uri_at h a = Some u \<Longrightarrow> rebuild_parts ext u s3 = Inl e
     \<Longrightarrow> NC_s3urlrebuild ext h (Some a) s3 newurlp = (Inl e, h, s3)"
  by (simp add: NC_s3urlrebuild_def)

lemma NC_s3urlrebuild_nomem:
  "uri_at h a = Some u \<Longrightarrow> rebuild_parts ext u s3 = Inr parts \<Longrightarrow> \<not> alloc_ok ext 191
     \<Longrightarrow> NC_s3urlrebuild ext h (Some a) s3 newurlp = (Inl NC_ENOMEM, h, s3)"
  by (simp add: NC_s3urlrebuild_def ncuriclone_def split: prod.splits)

lemma NC_s3urlrebuild_ok:
  "uri_at h a = Some u \<Longrightarrow> rebuild_parts ext u s3 = Inr (bkt, reg, sv, Some hst, pth)
     \<Longrightarrow> alloc_ok ext 191
     \<Longrightarrow> NC_s3urlrebuild ext h (Some a) s3 newurlp =
           (if newurlp
            then (Inr (Some (length h)), h @ [Some (rebuilt_url ext u hst pth)], write_s3 s3 bkt reg sv)
            else (Inr None, h @ [None], write_s3 s3 bkt reg sv))"
  by (simp add: NC_s3urlrebuild_def ncuriclone_def Let_def fill_new_cell ncurifree_new)

lemma NC_s3urlrebuild_cases:
  assumes "NC_s3urlrebuild ext h url s3 newurlp = (st, h', s3')"
  shows "(\<exists>e. st = Inl e \<and> h' = h \<and> s3' = s3) \<or>
         (\<exists>a u bkt reg sv hst pth.
            url = Some a \<and> uri_at h a = Some u \<and>
            rebuild_parts ext u s3 = Inr (bkt, reg, sv, Some hst, pth) \<and> alloc_ok ext 191 \<and>
            s3' = write_s3 s3 bkt reg sv \<and>
            (if newurlp then st = Inr (Some (length h)) \<and> h' = h @ [Some (rebuilt_url ext u hst pth)]
             else st = Inr None \<and> h' = h @ [None]))"
proof (cases url)
  case None
  with assms show ?thesis by (auto simp add: NC_s3urlrebuild_def)
next
  case (Some a)
  show ?thesis
  proof (cases "uri_at h a")
    case None
    with Some assms show ?thesis by (auto simp add: NC_s3urlrebuild_def)
  next
    case u: (Some u)
    show ?thesis
    proof (cases "rebuild_parts ext u s3")
      case (Inl e)
      with assms Some u show ?thesis by (auto simp add: NC_s3urlrebuild_fail)
    next
      case (Inr parts)
      obtain bkt reg sv ho pth where parts: "parts = (bkt, reg, sv, ho, pth)"
        by (cases parts) auto
      with Inr rebuild_parts_host obtain hst where ho: "ho = Some hst"
        by blast
      show ?thesis
      proof (cases "alloc_ok ext 191")
        case False
        with assms Some u Inr show ?thesis by (auto simp add: NC_s3urlrebuild_nomem)
      next
        case True
        from NC_s3urlrebuild_ok [OF u Inr [unfolded parts ho] True, of newurlp] assms Some
        show ?thesis using u Inr parts ho True
          by (auto split: if_splits)
      qed
    qed
  qed
qed


lemma resolve_region_found:
  "region_by_priority r0 (prior_region s3) (NC_getdefaults3region ext u) = Inr r
     \<Longrightarrow> resolve_region ext u s3 r0 = Inr r"
  by (cases r0; cases s3)
     (auto simp add: resolve_region_def region_by_priority_def prior_region_def nulldup_def Let_def
      split: option.splits sum.splits)

lemma resolve_region_Inr:
  "resolve_region ext u s3 r0 = Inr r
     \<Longrightarrow> region_by_priority r0 (prior_region s3) (NC_getdefaults3region ext u) = Inr r"
  by (cases r0; cases s3)
     (auto simp add: resolve_region_def region_by_priority_def prior_region_def nulldup_def Let_def
        split: option.splits sum.splits)

lemma resolve_region_resolver_failed:
  "r0 = None \<Longrightarrow> prior_region s3 = None \<Longrightarrow> NC_getdefaults3region ext u = Inl e
     \<Longrightarrow> resolve_region ext u s3 r0 = Inl e"
  by (auto simp add: resolve_region_def prior_region_def nulldup_def Let_def
      split: option.splits)

lemma resolve_bucket_priority:
  "resolve_bucket s3 b0 ps = bucket_by_priority b0 ps (prior_bucket s3)"
  by (cases ps)
     (simp_all add: resolve_bucket_def bucket_by_priority_def prior_bucket_def nulldup_def
        nclistremove_def Let_def split: option.splits)

lemma rebuild_parts_steps:
  assumes "NC_split_delim ext (host u) CHR ''.'' = Inr hs"
      and "NC_split_delim ext (path u) CHR ''/'' = Inr ps"
      and "host u = Some hst" and "hst \<noteq> []"
      and "classify_host ext u hs = Inr (b0, r0, h0, sv)"
  shows "rebuild_parts ext u s3 =
     (case resolve_region ext u s3 r0 of
        Inl e \<Rightarrow> Inl e
      | Inr reg \<Rightarrow>
          (case bucket_by_priority b0 ps (prior_bucket s3) of
             Inl e \<Rightarrow> Inl e
           | Inr (bkt, ps1) \<Rightarrow>
               Inr (bkt, reg, sv, revised_host sv reg h0, revised_path bkt ps1)))"
  using assms
  by (simp add: rebuild_parts_def resolve_bucket_priority split: sum.splits)

subsection \<open>The service predicate\<close>

text \<open>
  C7. \<^verbatim>\<open>NC_iss3\<close> is a total predicate: it is false for a \<^verbatim>\<open>NULL\<close> URL, and for
  any other URL it is true exactly when one of its checks holds: the scheme is \<^verbatim>\<open>s3\<close> or
  \<^verbatim>\<open>gs3\<close> (both compared ignoring case), \<^verbatim>\<open>NC_testmode\<close> finds \<^verbatim>\<open>s3\<close> or
  \<^verbatim>\<open>gs3\<close> among the mode flags, or the host is present and ends with
  \<^verbatim>\<open>.amazonaws.com\<close> or equals \<^verbatim>\<open>storage.googleapis.com\<close> ignoring case. For
  \<^verbatim>\<open>https://example.com\<close> it is false unless \<^verbatim>\<open>NC_testmode\<close> finds one of the two
  flags.
\<close>

theorem NC_iss3_checks:
  "NC_iss3 ext None = False \<and>
   NC_iss3 ext (Some u) =
     (map tolower (protocol u) = ''s3'' \<or>
      map tolower (protocol u) = ''gs3'' \<or>
      NC_testmode ext u ''s3'' \<or>
      NC_testmode ext u ''gs3'' \<or>
      (\<exists>hst. host u = Some hst \<and>
         ((\<exists>pre. hst = pre @ ''.amazonaws.com'') \<or>
          map tolower hst = ''storage.googleapis.com''))) \<and>
   (NC_testmode ext (mk_url ''https'' ''example.com'' []) ''s3'' \<or>
    NC_testmode ext (mk_url ''https'' ''example.com'' []) ''gs3'' \<or>
    NC_iss3 ext (Some (mk_url ''https'' ''example.com'' [])) = False)"
proof (intro conjI)
  show "NC_iss3 ext None = False"
    by (simp add: NC_iss3_def)
next
  define A where "A \<longleftrightarrow> map tolower (protocol u) = ''s3''"
  define B where "B \<longleftrightarrow> map tolower (protocol u) = ''gs3''"
  define C where "C = (\<lambda>hst. \<exists>pre. hst = pre @ ''.amazonaws.com'')"
  define D where "D = (\<lambda>hst. map tolower hst = ''storage.googleapis.com'')"
  have a: "strcasecmp (protocol u) ''s3'' = 0 \<longleftrightarrow> A"
    unfolding A_def by (simp add: strcasecmp_def tolower_def)
  have b: "strcasecmp (protocol u) ''gs3'' = 0 \<longleftrightarrow> B"
    unfolding B_def by (simp add: strcasecmp_def tolower_def)
  have c: "endswith (Some hst) (Some AWSHOST) \<longleftrightarrow> C hst" for hst
    unfolding C_def by (simp add: endswith_iff AWSHOST_def)
  have d: "strcasecmp hst GOOGLEHOST = 0 \<longleftrightarrow> D hst" for hst
    unfolding D_def by (simp add: strcasecmp_def tolower_def GOOGLEHOST_def)
  have "NC_iss3 ext (Some u) =
     (A \<or> B \<or> NC_testmode ext u ''s3'' \<or> NC_testmode ext u ''gs3'' \<or>
      (\<exists>hst. host u = Some hst \<and> (C hst \<or> D hst)))"
    unfolding NC_iss3_def by (cases "host u") (auto simp add: a b c d)
  then show "NC_iss3 ext (Some u) =
     (map tolower (protocol u) = ''s3'' \<or>
      map tolower (protocol u) = ''gs3'' \<or>
      NC_testmode ext u ''s3'' \<or>
      NC_testmode ext u ''gs3'' \<or>
      (\<exists>hst. host u = Some hst \<and>
         ((\<exists>pre. hst = pre @ ''.amazonaws.com'') \<or>
          map tolower hst = ''storage.googleapis.com'')))"
    unfolding A_def B_def C_def D_def .
next
  show "NC_testmode ext (mk_url ''https'' ''example.com'' []) ''s3'' \<or>
    NC_testmode ext (mk_url ''https'' ''example.com'' []) ''gs3'' \<or>
    NC_iss3 ext (Some (mk_url ''https'' ''example.com'' [])) = False"
    by (simp add: NC_iss3_def mk_url_def strcasecmp_def tolower_def endswith_def AWSHOST_def
        GOOGLEHOST_def)
qed

theorem NC_iss3_checks_witness:
  "NC_iss3 (spec_ext None) (Some (mk_url ''S3'' ''bucket'' ''/key'')) = True \<and>
   NC_iss3 (spec_ext None) (Some (mk_url ''https'' ''example.com'' [])) = False"
  using NC_iss3_checks [of "spec_ext None" "mk_url ''S3'' ''bucket'' ''/key''"]
  by (simp add: mk_url_def tolower_def spec_ext_def spec_testmode_def)

subsection \<open>Cloning a descriptor\<close>

lemma nulldup_at_Some: "nulldup_at ext n s = Some v \<Longrightarrow> s = Some v \<and> alloc_ok ext n"
  by (simp add: nulldup_at_def split: option.splits if_splits)

lemma nulldup_at_None: "s = None \<Longrightarrow> nulldup_at ext n s = None"
  by (simp add: nulldup_at_def)

text \<open>
  C10, as stated, fails: a call that passes no result pointer returns \<^verbatim>\<open>NC_NOERR\<close>
  whatever the descriptor holds (the guard of line 275 skips the copying). Here the
  descriptor is a freshly cleared one.
\<close>

theorem NC_s3clone_cleared_counterexample:
  "snd (NC_s3clear (Some \<lparr>s3host = Some ''h'', region = Some ''r'', bucket = Some ''b'',
        rootkey = Some ''k'', profile = Some ''p'', svc = NCS3\<rparr>))
     = Some (calloc_NCS3INFO\<lparr>svc := NCS3\<rparr>) \<and>
   NC_s3clone (spec_ext None) (Some (calloc_NCS3INFO\<lparr>svc := NCS3\<rparr>)) None = (Inr (), None) \<and>
   fst (NC_s3clone (spec_ext None) (Some (calloc_NCS3INFO\<lparr>svc := NCS3\<rparr>)) None) \<noteq> Inl NC_ENOMEM"
  by (simp add: NC_s3clear_def NC_s3clone_def calloc_NCS3INFO_def)

text \<open>
  C10, amended. When both a source descriptor and a result pointer are passed,
  \<^verbatim>\<open>NC_s3clone\<close> returns \<^verbatim>\<open>NC_ENOMEM\<close> (and leaves the result slot alone) whenever
  one of the five string fields of the source is unset; when it succeeds, all five are
  set and the slot holds a copy of them with \<^verbatim>\<open>svc\<close> zeroed; with all five set and
  every allocation granted it does succeed. Without a result pointer it returns
  \<^verbatim>\<open>NC_NOERR\<close> and copies nothing.
\<close>

theorem NC_s3clone_unset_field:
  "((s3host d = None \<or> region d = None \<or> bucket d = None \<or> rootkey d = None \<or> profile d = None)
      \<longrightarrow> NC_s3clone ext (Some d) (Some slot) = (Inl NC_ENOMEM, Some slot)) \<and>
   (NC_s3clone ext (Some d) (Some slot) = (Inr (), slot')
      \<longrightarrow> (\<exists>hst reg bkt key prof.
            s3host d = Some hst \<and> region d = Some reg \<and> bucket d = Some bkt \<and>
            rootkey d = Some key \<and> profile d = Some prof \<and>
            slot' = Some (Some \<lparr>s3host = Some hst, region = Some reg, bucket = Some bkt,
                                rootkey = Some key, profile = Some prof, svc = NCS3UNK\<rparr>))) \<and>
   (alloc_ok ext 276 \<and> alloc_ok ext 278 \<and> alloc_ok ext 279 \<and> alloc_ok ext 280 \<and>
    alloc_ok ext 281 \<and> alloc_ok ext 282 \<and>
    s3host d = Some hst \<and> region d = Some reg \<and> bucket d = Some bkt \<and>
    rootkey d = Some key \<and> profile d = Some prof
      \<longrightarrow> NC_s3clone ext (Some d) (Some slot) =
            (Inr (), Some (Some \<lparr>s3host = Some hst, region = Some reg, bucket = Some bkt,
                                 rootkey = Some key, profile = Some prof, svc = NCS3UNK\<rparr>))) \<and>
   NC_s3clone ext s3 None = (Inr (), None)"
proof (intro conjI impI)
  assume "s3host d = None \<or> region d = None \<or> bucket d = None \<or> rootkey d = None \<or> profile d = None"
  then show "NC_s3clone ext (Some d) (Some slot) = (Inl NC_ENOMEM, Some slot)"
    by (auto simp add: NC_s3clone_def nulldup_at_None split: option.splits)
next
  assume ok: "NC_s3clone ext (Some d) (Some slot) = (Inr (), slot')"
  then show "\<exists>hst reg bkt key prof.
            s3host d = Some hst \<and> region d = Some reg \<and> bucket d = Some bkt \<and>
            rootkey d = Some key \<and> profile d = Some prof \<and>
            slot' = Some (Some \<lparr>s3host = Some hst, region = Some reg, bucket = Some bkt,
                                rootkey = Some key, profile = Some prof, svc = NCS3UNK\<rparr>)"
    by (auto simp add: NC_s3clone_def calloc_NCS3INFO_def split: option.splits if_splits
        dest!: nulldup_at_Some)
next
  assume "alloc_ok ext 276 \<and> alloc_ok ext 278 \<and> alloc_ok ext 279 \<and> alloc_ok ext 280 \<and>
    alloc_ok ext 281 \<and> alloc_ok ext 282 \<and>
    s3host d = Some hst \<and> region d = Some reg \<and> bucket d = Some bkt \<and>
    rootkey d = Some key \<and> profile d = Some prof"
  then show "NC_s3clone ext (Some d) (Some slot) =
            (Inr (), Some (Some \<lparr>s3host = Some hst, region = Some reg, bucket = Some bkt,
                                 rootkey = Some key, profile = Some prof, svc = NCS3UNK\<rparr>))"
    by (simp add: NC_s3clone_def nulldup_at_def calloc_NCS3INFO_def)
next
  show "NC_s3clone ext s3 None = (Inr (), None)"
    by (simp add: NC_s3clone_def)
qed

theorem NC_s3clone_unset_field_witness:
  "region calloc_NCS3INFO = None \<and>
   NC_s3clone (spec_ext None) (Some calloc_NCS3INFO) (Some None) = (Inl NC_ENOMEM, Some None)"
  using NC_s3clone_unset_field [of calloc_NCS3INFO "spec_ext None" None]
  by (simp add: calloc_NCS3INFO_def)

subsection \<open>The caller's URL is left alone\<close>

text \<open>
  C6. \<^verbatim>\<open>NC_s3urlrebuild\<close> never changes a URL that was live before the call, the
  caller's included, whether it succeeds or fails: every old cell of the heap holds what
  it held. The pointer it hands back is a new cell, which holds the copy of the caller's
  URL with the scheme \<^verbatim>\<open>https\<close>, the host and the path replaced and the full string
  rebuilt; the mode flags are the caller's.
\<close>

theorem NC_s3urlrebuild_frame:
  assumes "NC_s3urlrebuild ext h url s3 newurlp = (st, h', s3')"
  shows "take (length h) h' = h \<and>
         (\<forall>a. a < length h \<longrightarrow> uri_at h' a = uri_at h a) \<and>
         (\<forall>p. st = Inr (Some p) \<longrightarrow>
            p = length h \<and>
            (\<exists>a u v hst pth.
               url = Some a \<and> uri_at h a = Some u \<and> uri_at h' p = Some v \<and>
               protocol v = ''https'' \<and> host v = Some hst \<and> path v = Some pth \<and>
               modeflags v = modeflags u \<and>
               uri v = Some (ncuribuild ext
                  (u\<lparr>protocol := ''https'', host := Some hst, path := Some pth\<rparr>))))"
proof -
  from NC_s3urlrebuild_cases [OF assms]
  consider
    (fail) e where "st = Inl e" "h' = h" "s3' = s3"
  | (given) a u hst pth where
      "url = Some a" "uri_at h a = Some u" "newurlp"
      "st = Inr (Some (length h))" "h' = h @ [Some (rebuilt_url ext u hst pth)]"
  | (dropped) "\<not> newurlp" "st = Inr None" "h' = h @ [None]"
    by (auto split: if_splits)
  then show ?thesis
  proof cases
    case fail
    then show ?thesis by simp
  next
    case given
    then show ?thesis
      by (auto simp add: uri_at_append_old) (simp add: uri_at_def rebuilt_url_def Let_def)
  next
    case dropped
    then show ?thesis by (simp add: uri_at_append_old)
  qed
qed

theorem NC_s3urlrebuild_frame_witness:
  "NC_s3urlrebuild (spec_ext (Some ''us-east-1''))
     [Some (mk_url ''https'' ''mybucket.s3.us-west-2.amazonaws.com'' ''/a/b/c'')] (Some 0) None True
   = (Inr (Some 1),
      [Some (mk_url ''https'' ''mybucket.s3.us-west-2.amazonaws.com'' ''/a/b/c''),
       Some (mk_url ''https'' ''s3.us-west-2.amazonaws.com'' ''/mybucket/a/b/c'')], None) \<and>
   uri_at [Some (mk_url ''https'' ''mybucket.s3.us-west-2.amazonaws.com'' ''/a/b/c''),
           Some (mk_url ''https'' ''s3.us-west-2.amazonaws.com'' ''/mybucket/a/b/c'')] 0
   = uri_at [Some (mk_url ''https'' ''mybucket.s3.us-west-2.amazonaws.com'' ''/a/b/c'')] 0"
proof -
  have run: "NC_s3urlrebuild (spec_ext (Some ''us-east-1''))
     [Some (mk_url ''https'' ''mybucket.s3.us-west-2.amazonaws.com'' ''/a/b/c'')] (Some 0) None True
   = (Inr (Some 1),
      [Some (mk_url ''https'' ''mybucket.s3.us-west-2.amazonaws.com'' ''/a/b/c''),
       Some (mk_url ''https'' ''s3.us-west-2.amazonaws.com'' ''/mybucket/a/b/c'')], None)"
    by code_simp
  from NC_s3urlrebuild_frame [OF run] have
    "uri_at [Some (mk_url ''https'' ''mybucket.s3.us-west-2.amazonaws.com'' ''/a/b/c''),
           Some (mk_url ''https'' ''s3.us-west-2.amazonaws.com'' ''/mybucket/a/b/c'')] 0
   = uri_at [Some (mk_url ''https'' ''mybucket.s3.us-west-2.amazonaws.com'' ''/a/b/c'')] 0"
    by simp
  with run show ?thesis by simp
qed

subsection \<open>Hosts of four labels\<close>

text \<open>
  With four labels under \<^verbatim>\<open>.amazonaws.com\<close> the two tests of lines 115 and 118 are
  each other's negation, so the \<^verbatim>\<open>NC_EURL\<close> branch of line 122 is never taken: the
  host is read as path-style with a region when the first label is \<^verbatim>\<open>s3\<close>, and as
  virtual-hosted with the first label as the bucket otherwise, whatever the second label is.
\<close>

lemma classify_host_four_labels:
  assumes "length hs = 4" and "endswith (host u) (Some AWSHOST)"
  shows "classify_host ext u hs =
     (if map tolower (hs ! 0) = ''s3'' then Inr (None, Some (hs ! 1), None, NCS3)
      else Inr (Some (hs ! 0), None, None, NCS3))"
proof -
  have s3: "strcasecmp (hs ! 0) ''s3'' = 0 \<longleftrightarrow> map tolower (hs ! 0) = ''s3''"
    by (simp add: strcasecmp_def tolower_def)
  show ?thesis
    unfolding classify_host_def using assms
    by (simp add: s3 nclistremove_def del: One_nat_def)
qed

text \<open>
  C3. The claim asks for \<^verbatim>\<open>NC_EURL\<close> on a four-label host that is neither
  \<^verbatim>\<open>s3.<region>.amazonaws.com\<close> nor \<^verbatim>\<open><bucket>.s3.amazonaws.com\<close>. The code
  accepts \<^verbatim>\<open>https://mybucket.foo.amazonaws.com/a/b/c\<close>: it takes \<^verbatim>\<open>mybucket\<close> for
  the bucket and rebuilds the host with the default region.
\<close>

theorem NC_s3urlrebuild_four_label_accepted:
  "NC_s3urlrebuild (spec_ext (Some ''us-east-1''))
     [Some (mk_url ''https'' ''mybucket.foo.amazonaws.com'' ''/a/b/c'')] (Some 0)
     (Some calloc_NCS3INFO) True
   = (Inr (Some 1),
      [Some (mk_url ''https'' ''mybucket.foo.amazonaws.com'' ''/a/b/c''),
       Some (mk_url ''https'' ''s3.us-east-1.amazonaws.com'' ''/mybucket/a/b/c'')],
      Some (calloc_NCS3INFO\<lparr>bucket := Some ''mybucket'', region := Some ''us-east-1'',
                             svc := NCS3\<rparr>))"
  by code_simp

subsection \<open>The order in which region and bucket are resolved\<close>

text \<open>
  C4. The region is taken from the host, else from the prior descriptor, else from the
  default resolver, and line 154 means to fail with \<^verbatim>\<open>NC_ES3\<close> when none of them
  yields one, as the claim says. When the resolver returns \<^verbatim>\<open>NC_NOERR\<close> and no region,
  the code does not get there: for \<^verbatim>\<open>https://s3.amazonaws.com/mybucket/a/b/c\<close> with no
  descriptor, line 152 calls \<^verbatim>\<open>strdup(NULL)\<close> and the process dies, where the order of
  the specification gives \<^verbatim>\<open>NC_ES3\<close>.
\<close>

theorem NC_s3urlrebuild_null_default_region:
  "NC_s3urlrebuild (spec_ext None)
     [Some (mk_url ''https'' ''s3.amazonaws.com'' ''/mybucket/a/b/c'')] (Some 0) None True
   = (Inl NC_ABORT, [Some (mk_url ''https'' ''s3.amazonaws.com'' ''/mybucket/a/b/c'')], None) \<and>
   NC_getdefaults3region (spec_ext None) (mk_url ''https'' ''s3.amazonaws.com'' ''/mybucket/a/b/c'')
     = Inr None \<and>
   region_by_priority None (prior_region None) (Inr None) = Inl NC_ES3"
  by code_simp

text \<open>
  C5, as stated, fails: the bucket step comes after the region step, so when the default
  resolver fails with a status of its own the call returns that status, also when no
  bucket can be found. Here the host has three labels, the path is empty, no descriptor is
  passed, and the resolver fails with the status -36.
\<close>

theorem NC_s3urlrebuild_resolver_status_counterexample:
  "NC_s3urlrebuild (spec_ext_failing (NC_ERR (- 36)))
     [Some (mk_url ''https'' ''s3.amazonaws.com'' [])] (Some 0) None True
   = (Inl (NC_ERR (- 36)), [Some (mk_url ''https'' ''s3.amazonaws.com'' [])], None) \<and>
   bucket_by_priority None [] (prior_bucket None) = Inl NC_ES3 \<and>
   NC_ERR (- 36) \<noteq> NC_ES3"
  by code_simp

text \<open>
  C5, amended. For a URL whose host and path split and whose host classifies (with the
  bucket \<open>b0\<close> and the region \<open>r0\<close>, each \<open>None\<close> when the host has none), the bucket
  step is the priority order of the specification: the bucket from the host, else the
  first path segment, which leaves the segment sequence, else the prior descriptor's
  bucket. The step runs after the region step. When the region step has yielded a region
  and none of the three yields a bucket, the call fails with \<^verbatim>\<open>NC_ES3\<close> and changes
  nothing. When the region step fails because the default resolver returns an error
  status, the call returns that status and changes nothing, whatever the bucket sources
  hold. When both steps yield a value and the copy of the URL can be allocated, the call
  succeeds, writes that bucket to the descriptor, and the new path is the bucket followed
  by the remaining segments.
\<close>

theorem NC_s3urlrebuild_bucket_priority:
  assumes "uri_at h a = Some u"
      and "NC_split_delim ext (host u) CHR ''.'' = Inr hs"
      and "NC_split_delim ext (path u) CHR ''/'' = Inr ps"
      and "host u = Some hst" and "hst \<noteq> []"
      and "classify_host ext u hs = Inr (b0, r0, h0, sv)"
  shows "resolve_bucket s3 b0 ps = bucket_by_priority b0 ps (prior_bucket s3) \<and>
     (\<forall>reg. region_by_priority r0 (prior_region s3) (NC_getdefaults3region ext u) = Inr reg \<and>
        b0 = None \<and> ps = [] \<and> prior_bucket s3 = None \<longrightarrow>
          NC_s3urlrebuild ext h (Some a) s3 newurlp = (Inl NC_ES3, h, s3)) \<and>
     (\<forall>e. r0 = None \<and> prior_region s3 = None \<and> NC_getdefaults3region ext u = Inl e \<longrightarrow>
          NC_s3urlrebuild ext h (Some a) s3 newurlp = (Inl e, h, s3)) \<and>
     (\<forall>reg bkt rest.
        region_by_priority r0 (prior_region s3) (NC_getdefaults3region ext u) = Inr reg \<and>
        bucket_by_priority b0 ps (prior_bucket s3) = Inr (bkt, rest) \<and> alloc_ok ext 191 \<longrightarrow>
          (\<exists>v. NC_s3urlrebuild ext h (Some a) s3 True =
                  (Inr (Some (length h)), h @ [Some v], write_s3 s3 bkt reg sv) \<and>
               path v = Some (''/'' @ bkt @ concat (map (\<lambda>seg. ''/'' @ seg) rest))))"
proof (intro conjI allI impI)
  show "resolve_bucket s3 b0 ps = bucket_by_priority b0 ps (prior_bucket s3)"
    by (rule resolve_bucket_priority)
next
  fix reg
  assume *: "region_by_priority r0 (prior_region s3) (NC_getdefaults3region ext u) = Inr reg \<and>
        b0 = None \<and> ps = [] \<and> prior_bucket s3 = None"
  then have "resolve_region ext u s3 r0 = Inr reg"
    by (simp add: resolve_region_found)
  with * have "rebuild_parts ext u s3 = Inl NC_ES3"
    by (simp add: rebuild_parts_steps [OF assms(2-6)] bucket_by_priority_def)
  with assms(1) show "NC_s3urlrebuild ext h (Some a) s3 newurlp = (Inl NC_ES3, h, s3)"
    by (rule NC_s3urlrebuild_fail)
next
  fix e
  assume "r0 = None \<and> prior_region s3 = None \<and> NC_getdefaults3region ext u = Inl e"
  then have "resolve_region ext u s3 r0 = Inl e"
    by (simp add: resolve_region_resolver_failed)
  then have "rebuild_parts ext u s3 = Inl e"
    by (simp add: rebuild_parts_steps [OF assms(2-6)])
  with assms(1) show "NC_s3urlrebuild ext h (Some a) s3 newurlp = (Inl e, h, s3)"
    by (rule NC_s3urlrebuild_fail)
next
  fix reg bkt rest
  assume *: "region_by_priority r0 (prior_region s3) (NC_getdefaults3region ext u) = Inr reg \<and>
        bucket_by_priority b0 ps (prior_bucket s3) = Inr (bkt, rest) \<and> alloc_ok ext 191"
  then have "resolve_region ext u s3 r0 = Inr reg"
    by (simp add: resolve_region_found)
  with * have parts: "rebuild_parts ext u s3 =
      Inr (bkt, reg, sv, revised_host sv reg h0, revised_path bkt rest)"
    by (simp add: rebuild_parts_steps [OF assms(2-6)])
  with rebuild_parts_host obtain hst' where hst': "revised_host sv reg h0 = Some hst'"
    by blast
  from NC_s3urlrebuild_ok [OF assms(1) parts [unfolded hst'], of True] *
  have "NC_s3urlrebuild ext h (Some a) s3 True =
      (Inr (Some (length h)), h @ [Some (rebuilt_url ext u hst' (revised_path bkt rest))],
       write_s3 s3 bkt reg sv)"
    by simp
  moreover have "path (rebuilt_url ext u hst' (revised_path bkt rest)) =
      Some (''/'' @ bkt @ concat (map (\<lambda>seg. ''/'' @ seg) rest))"
    by (simp add: rebuilt_url_def revised_path_def Let_def)
  ultimately show "\<exists>v. NC_s3urlrebuild ext h (Some a) s3 True =
                  (Inr (Some (length h)), h @ [Some v], write_s3 s3 bkt reg sv) \<and>
               path v = Some (''/'' @ bkt @ concat (map (\<lambda>seg. ''/'' @ seg) rest))"
    by blast
qed

theorem NC_s3urlrebuild_bucket_priority_witness:
  "NC_s3urlrebuild (spec_ext (Some ''us-east-1''))
     [Some (mk_url ''https'' ''s3.amazonaws.com'' [])] (Some 0) None True
   = (Inl NC_ES3, [Some (mk_url ''https'' ''s3.amazonaws.com'' [])], None) \<and>
   NC_s3urlrebuild (spec_ext (Some ''us-east-1''))
     [Some (mk_url ''https'' ''s3.amazonaws.com'' ''/mybucket/a/b/c'')] (Some 0)
     (Some (calloc_NCS3INFO\<lparr>bucket := Some ''other''\<rparr>)) True
   = (Inr (Some 1),
      [Some (mk_url ''https'' ''s3.amazonaws.com'' ''/mybucket/a/b/c''),
       Some (mk_url ''https'' ''s3.us-east-1.amazonaws.com'' ''/mybucket/a/b/c'')],
      Some (calloc_NCS3INFO\<lparr>bucket := Some ''mybucket'', region := Some ''us-east-1'',
                             svc := NCS3\<rparr>))"
proof -
  let ?ext = "spec_ext (Some ''us-east-1'')"
  let ?u = "mk_url ''https'' ''s3.amazonaws.com'' []"
  let ?v = "mk_url ''https'' ''s3.amazonaws.com'' ''/mybucket/a/b/c''"
  let ?d = "calloc_NCS3INFO\<lparr>bucket := Some ''other''\<rparr>"
  have at: "uri_at [Some w] 0 = Some w" for w :: NCURI
    by (simp add: uri_at_def)
  have hs: "NC_split_delim ?ext (host ?u) CHR ''.'' = Inr [''s3'', ''amazonaws'', ''com'']"
      "NC_split_delim ?ext (host ?v) CHR ''.'' = Inr [''s3'', ''amazonaws'', ''com'']"
    by code_simp+
  have ps: "NC_split_delim ?ext (path ?u) CHR ''/'' = Inr []"
      "NC_split_delim ?ext (path ?v) CHR ''/'' = Inr [''mybucket'', ''a'', ''b'', ''c'']"
    by code_simp+
  have hu: "host ?u = Some ''s3.amazonaws.com''" "host ?v = Some ''s3.amazonaws.com''"
    by (simp_all add: mk_url_def)
  have ne: "''s3.amazonaws.com'' \<noteq> []"
    by simp
  have cl: "classify_host ?ext ?u [''s3'', ''amazonaws'', ''com''] = Inr (None, None, None, NCS3)"
      "classify_host ?ext ?v [''s3'', ''amazonaws'', ''com''] = Inr (None, None, None, NCS3)"
    by code_simp+
  have pri: "region_by_priority None (prior_region None) (NC_getdefaults3region ?ext ?u)
      = Inr ''us-east-1''"
      "region_by_priority None (prior_region (Some ?d)) (NC_getdefaults3region ?ext ?v)
      = Inr ''us-east-1''"
    by code_simp+
  have bkt: "prior_bucket None = None"
      "bucket_by_priority None [''mybucket'', ''a'', ''b'', ''c''] (prior_bucket (Some ?d))
        = Inr (''mybucket'', [''a'', ''b'', ''c''])"
    by code_simp+
  have al: "alloc_ok ?ext 191"
    by (simp add: spec_ext_def)
  from NC_s3urlrebuild_bucket_priority [OF at hs(1) ps(1) hu(1) ne cl(1), of None True] pri(1) bkt(1)
  have 1: "NC_s3urlrebuild ?ext [Some ?u] (Some 0) None True = (Inl NC_ES3, [Some ?u], None)"
    by simp
  have run: "NC_s3urlrebuild ?ext [Some ?v] (Some 0) (Some ?d) True
   = (Inr (Some 1),
      [Some ?v, Some (mk_url ''https'' ''s3.us-east-1.amazonaws.com'' ''/mybucket/a/b/c'')],
      Some (calloc_NCS3INFO\<lparr>bucket := Some ''mybucket'', region := Some ''us-east-1'',
                             svc := NCS3\<rparr>))"
    by code_simp
  from 1 run show ?thesis by simp
qed

subsection \<open>Rebuilding a canonical URL\<close>

lemma split_segments_run:
  "delim \<notin> set s \<Longrightarrow> split_segments delim cur (s @ rest) = split_segments delim (cur @ s) rest"
  by (induction s arbitrary: cur) auto

lemma split_segments_joined:
  "list_all (\<lambda>seg. seg \<noteq> [] \<and> delim \<notin> set seg) segs \<Longrightarrow>
   split_segments delim cur (concat (map (\<lambda>seg. delim # seg) segs)) =
     (if cur = [] then segs else cur # segs)"
proof (induction segs arbitrary: cur)
  case Nil
  then show ?case by simp
next
  case (Cons seg segs)
  then have seg: "seg \<noteq> []" "delim \<notin> set seg"
    and rest: "list_all (\<lambda>seg. seg \<noteq> [] \<and> delim \<notin> set seg) segs"
    by simp_all
  have "split_segments delim [] (seg @ concat (map (\<lambda>seg. delim # seg) segs)) = seg # segs"
    using split_segments_run [OF seg(2), of "[]"] Cons.IH [OF rest, of seg] seg(1)
    by simp
  then show ?case by simp
qed

lemma spec_ext_splits_joined: "splits_joined (spec_ext dflt)"
  unfolding splits_joined_def
proof (intro allI impI conjI)
  fix delim :: char and segs :: "string list"
  assume wf: "list_all (\<lambda>seg. seg \<noteq> [] \<and> delim \<notin> set seg) segs"
  show "NC_split_delim (spec_ext dflt) (Some (concat (map (\<lambda>seg. delim # seg) segs))) delim
          = Inr segs"
    using split_segments_joined [OF wf, of "[]"]
    by (simp add: spec_ext_def spec_split_delim_def)
  show "NC_split_delim (spec_ext dflt) (Some (tl (concat (map (\<lambda>seg. delim # seg) segs)))) delim
          = Inr segs"
  proof (cases segs)
    case Nil
    then show ?thesis by (simp add: spec_ext_def spec_split_delim_def)
  next
    case (Cons seg rest)
    with wf have seg: "seg \<noteq> []" "delim \<notin> set seg"
      and rest: "list_all (\<lambda>seg. seg \<noteq> [] \<and> delim \<notin> set seg) rest"
      by simp_all
    have "split_segments delim [] (seg @ concat (map (\<lambda>seg. delim # seg) rest)) = seg # rest"
      using split_segments_run [OF seg(2), of "[]"] split_segments_joined [OF rest, of seg] seg(1)
      by simp
    with Cons show ?thesis by (simp add: spec_ext_def spec_split_delim_def)
  qed
qed

lemma spec_ext_failing_splits_joined: "splits_joined (spec_ext_failing e)"
  using spec_ext_splits_joined [of None]
  by (simp add: splits_joined_def spec_ext_failing_def)

lemma splits_joined_path:
  assumes "splits_joined ext" and "list_all (\<lambda>seg. seg \<noteq> [] \<and> CHR ''/'' \<notin> set seg) segs"
  shows "NC_split_delim ext (Some (concat (map (\<lambda>seg. ''/'' @ seg) segs))) CHR ''/'' = Inr segs"
  using assms unfolding splits_joined_def by simp

lemma splits_joined_host:
  assumes "splits_joined ext" and "list_all (\<lambda>seg. seg \<noteq> [] \<and> CHR ''.'' \<notin> set seg) segs"
      and "hst = tl (concat (map (\<lambda>seg. CHR ''.'' # seg) segs))"
  shows "NC_split_delim ext (Some hst) CHR ''.'' = Inr segs"
  using assms unfolding splits_joined_def by simp

lemma rebuilt_url_same:
  assumes "protocol u = ''https''" and "host u = Some hst" and "path u = Some pth"
      and "uri u = Some (ncuribuild ext u)"
  shows "rebuilt_url ext u hst pth = u"
proof -
  have "u\<lparr>protocol := ''https'', host := Some hst, path := Some pth\<rparr> = u"
    using assms(1-3) by simp
  then show ?thesis
    using assms(4) by (simp add: rebuilt_url_def Let_def)
qed

text \<open>
  C2. Let a URL be in canonical path-style form: scheme \<^verbatim>\<open>https\<close>, host
  \<^verbatim>\<open>s3.<region>.amazonaws.com\<close> for a non-empty region without a dot, path
  \<^verbatim>\<open>/<bucket>/<segment>/...\<close> with non-empty segments without a slash, and the full
  string built from these. If \<^verbatim>\<open>NC_split_delim\<close> gives the segments of a joined string
  back and the copy can be allocated, \<^verbatim>\<open>NC_s3urlrebuild\<close> succeeds, the new URL equals
  the given one, and bucket and region are recovered (written to the descriptor, with the
  S3 service), whatever the descriptor and the default region were.
\<close>

theorem NC_s3urlrebuild_idempotent:
  assumes "splits_joined ext" and "alloc_ok ext 191"
      and "reg \<noteq> []" and "CHR ''.'' \<notin> set reg"
      and "list_all (\<lambda>seg. seg \<noteq> [] \<and> CHR ''/'' \<notin> set seg) (bkt # segs)"
      and "protocol u = ''https''"
      and "host u = Some (''s3.'' @ reg @ ''.amazonaws.com'')"
      and "path u = Some (concat (map (\<lambda>seg. ''/'' @ seg) (bkt # segs)))"
      and "uri u = Some (ncuribuild ext u)"
      and "uri_at h a = Some u"
  shows "NC_s3urlrebuild ext h (Some a) s3 True =
           (Inr (Some (length h)), h @ [Some u], write_s3 s3 bkt reg NCS3)"
proof -
  let ?hs = "[''s3'', reg, ''amazonaws'', ''com'']"
  define hst where "hst = ''s3.'' @ reg @ ''.amazonaws.com''"
  define pth where "pth = concat (map (\<lambda>seg. ''/'' @ seg) (bkt # segs))"
  have hu: "host u = Some hst" and pu: "path u = Some pth"
    using assms(7,8) by (simp_all add: hst_def pth_def)
  have "list_all (\<lambda>seg. seg \<noteq> [] \<and> CHR ''.'' \<notin> set seg) ?hs"
    using assms(3,4) by simp
  moreover have "hst = tl (concat (map (\<lambda>seg. CHR ''.'' # seg) ?hs))"
    by (simp add: hst_def)
  ultimately have hs: "NC_split_delim ext (host u) CHR ''.'' = Inr ?hs"
    unfolding hu using assms(1) by (rule splits_joined_host [rotated])
  have ps: "NC_split_delim ext (path u) CHR ''/'' = Inr (bkt # segs)"
    unfolding pu pth_def using assms(1,5) by (rule splits_joined_path)
  have "endswith (host u) (Some AWSHOST)"
    unfolding hu using endswith_iff [of hst AWSHOST]
    by (auto simp add: AWSHOST_def hst_def)
  then have cl: "classify_host ext u ?hs = Inr (None, Some reg, None, NCS3)"
    by (simp add: classify_host_four_labels tolower_def)
  have ne: "hst \<noteq> []"
    by (simp add: hst_def)
  have parts: "rebuild_parts ext u s3 = Inr (bkt, reg, NCS3, Some hst, pth)"
    by (simp add: rebuild_parts_steps [OF hs ps hu ne cl] resolve_region_def
        bucket_by_priority_def revised_host_def revised_path_def AWSHOST_def hst_def pth_def
        split: option.splits)
  have same: "rebuilt_url ext u hst pth = u"
    using assms(6) hu pu assms(9) by (rule rebuilt_url_same)
  show ?thesis
    using NC_s3urlrebuild_ok [OF assms(10) parts assms(2), of True] same
    by simp
qed

theorem NC_s3urlrebuild_idempotent_witness:
  "NC_s3urlrebuild (spec_ext None)
     [Some (mk_url ''https'' ''s3.us-west-2.amazonaws.com'' ''/mybucket/a/b/c'')] (Some 0)
     (Some calloc_NCS3INFO) True
   = (Inr (Some 1),
      [Some (mk_url ''https'' ''s3.us-west-2.amazonaws.com'' ''/mybucket/a/b/c''),
       Some (mk_url ''https'' ''s3.us-west-2.amazonaws.com'' ''/mybucket/a/b/c'')],
      Some (calloc_NCS3INFO\<lparr>bucket := Some ''mybucket'', region := Some ''us-west-2'',
                             svc := NCS3\<rparr>))"
proof -
  let ?ext = "spec_ext None"
  let ?u = "mk_url ''https'' ''s3.us-west-2.amazonaws.com'' ''/mybucket/a/b/c''"
  have 1: "splits_joined ?ext"
    by (rule spec_ext_splits_joined)
  have 2: "alloc_ok ?ext 191"
    by (simp add: spec_ext_def)
  have 3: "''us-west-2'' \<noteq> []" "CHR ''.'' \<notin> set ''us-west-2''"
    by simp_all
  have 4: "list_all (\<lambda>seg. seg \<noteq> [] \<and> CHR ''/'' \<notin> set seg) [''mybucket'', ''a'', ''b'', ''c'']"
    by simp
  have 5: "protocol ?u = ''https''"
    and 6: "host ?u = Some (''s3.'' @ ''us-west-2'' @ ''.amazonaws.com'')"
    and 7: "path ?u = Some (concat (map (\<lambda>seg. ''/'' @ seg) [''mybucket'', ''a'', ''b'', ''c'']))"
    by (simp_all add: mk_url_def)
  have 8: "uri ?u = Some (ncuribuild ?ext ?u)"
    by (simp add: mk_url_def spec_ext_def spec_ncuribuild_def)
  have 9: "uri_at [Some ?u] 0 = Some ?u"
    by (simp add: uri_at_def)
  show ?thesis
    using NC_s3urlrebuild_idempotent [OF 1 2 3 4 5 6 7 8 9, of "Some calloc_NCS3INFO"]
    by (simp add: write_s3_def)
qed

subsection \<open>The seven documented shapes\<close>

text \<open>
  The shapes (1) to (7) of the comment of lines 80 to 89, for the bucket
  \<^verbatim>\<open>mybucket\<close>, the region \<^verbatim>\<open>us-west-2\<close> and the object path \<^verbatim>\<open>a/b/c\<close>, each
  rebuilt from its labels and segments.
\<close>

lemma rebuild_shape:
  assumes sj: "splits_joined ext" and build: "ncuribuild ext = spec_ncuribuild"
      and al: "alloc_ok ext 191"
      and at: "uri_at h a = Some (mk_url prot hst pth)"
      and hs: "list_all (\<lambda>seg. seg \<noteq> [] \<and> CHR ''.'' \<notin> set seg) hs"
              "hst = tl (concat (map (\<lambda>seg. CHR ''.'' # seg) hs))" "hst \<noteq> []"
      and ps: "list_all (\<lambda>seg. seg \<noteq> [] \<and> CHR ''/'' \<notin> set seg) ps"
              "pth = concat (map (\<lambda>seg. ''/'' @ seg) ps)"
      and cl: "classify_host ext (mk_url prot hst pth) hs = Inr (b0, r0, h0, sv)"
      and reg: "region_by_priority r0 (prior_region s3)
                  (NC_getdefaults3region ext (mk_url prot hst pth)) = Inr reg"
      and bkt: "bucket_by_priority b0 ps (prior_bucket s3) = Inr (bkt, rest)"
      and ho: "revised_host sv reg h0 = Some hst'"
  shows "NC_s3urlrebuild ext h (Some a) s3 True =
           (Inr (Some (length h)),
            h @ [Some (mk_url ''https'' hst' (revised_path bkt rest))],
            write_s3 s3 bkt reg sv)"
proof -
  let ?u = "mk_url prot hst pth"
  have hu: "host ?u = Some hst" and pu: "path ?u = Some pth"
    by (simp_all add: mk_url_def)
  from sj hs(1,2) have "NC_split_delim ext (Some hst) CHR ''.'' = Inr hs"
    by (rule splits_joined_host)
  then have 1: "NC_split_delim ext (host ?u) CHR ''.'' = Inr hs"
    by (simp add: mk_url_def)
  from sj ps(1) have "NC_split_delim ext (Some (concat (map (\<lambda>seg. ''/'' @ seg) ps))) CHR ''/''
      = Inr ps"
    by (rule splits_joined_path)
  then have 2: "NC_split_delim ext (path ?u) CHR ''/'' = Inr ps"
    by (simp add: mk_url_def ps(2))
  have parts: "rebuild_parts ext ?u s3 = Inr (bkt, reg, sv, Some hst', revised_path bkt rest)"
    by (simp add: rebuild_parts_steps [OF 1 2 hu hs(3) cl] resolve_region_found [OF reg] bkt ho)
  have "rebuilt_url ext ?u hst' (revised_path bkt rest)
          = mk_url ''https'' hst' (revised_path bkt rest)"
    by (simp add: rebuilt_url_def mk_url_def build spec_ncuribuild_def Let_def)
  with NC_s3urlrebuild_ok [OF at parts al, of True] show ?thesis
    by simp
qed

lemma bucket_from_path:
  "bucket_by_priority None [''mybucket'', ''a'', ''b'', ''c''] pb = Inr (''mybucket'', [''a'', ''b'', ''c''])"
  by (simp add: bucket_by_priority_def)

lemma bucket_from_host:
  "bucket_by_priority (Some ''mybucket'') [''a'', ''b'', ''c''] pb = Inr (''mybucket'', [''a'', ''b'', ''c''])"
  by (simp add: bucket_by_priority_def)

lemma canonical_path_abc: "revised_path ''mybucket'' [''a'', ''b'', ''c''] = ''/mybucket/a/b/c''"
  by (simp add: revised_path_def)

lemmas classify_defs =
  classify_host_def mk_url_def strcmp_def strcasecmp_def tolower_def endswith_def AWSHOST_def
  GOOGLEHOST_def nclistremove_def

lemma shape1:
  assumes "splits_joined ext" and "ncuribuild ext = spec_ncuribuild" and "alloc_ok ext 191"
      and "uri_at h a = Some (mk_url ''https'' ''mybucket.s3.us-west-2.amazonaws.com'' ''/a/b/c'')"
  shows "NC_s3urlrebuild ext h (Some a) s3 True =
           (Inr (Some (length h)),
            h @ [Some (mk_url ''https'' ''s3.us-west-2.amazonaws.com'' ''/mybucket/a/b/c'')],
            write_s3 s3 ''mybucket'' ''us-west-2'' NCS3)"
  using rebuild_shape [OF assms,
      of "[''mybucket'', ''s3'', ''us-west-2'', ''amazonaws'', ''com'']" "[''a'', ''b'', ''c'']"
         "Some ''mybucket''" "Some ''us-west-2''" None NCS3 s3 "''us-west-2''" "''mybucket''"
         "[''a'', ''b'', ''c'']" "''s3.us-west-2.amazonaws.com''"]
  by (simp add: classify_defs region_by_priority_def bucket_from_host revised_host_def
      canonical_path_abc)


lemma shape2:
  assumes "splits_joined ext" and "ncuribuild ext = spec_ncuribuild" and "alloc_ok ext 191"
      and "uri_at h a = Some (mk_url ''https'' ''mybucket.s3.amazonaws.com'' ''/a/b/c'')"
      and "region_by_priority None (prior_region s3)
             (NC_getdefaults3region ext (mk_url ''https'' ''mybucket.s3.amazonaws.com'' ''/a/b/c'')) = Inr r"
  shows "NC_s3urlrebuild ext h (Some a) s3 True =
           (Inr (Some (length h)),
            h @ [Some (mk_url ''https'' (''s3.'' @ r @ ''.amazonaws.com'') ''/mybucket/a/b/c'')],
            write_s3 s3 ''mybucket'' r NCS3)"
  using rebuild_shape [OF assms(1-4),
      of "[''mybucket'', ''s3'', ''amazonaws'', ''com'']" "[''a'', ''b'', ''c'']"
         "Some ''mybucket''" "None" "None" NCS3 s3 "r" "''mybucket''"
         "[''a'', ''b'', ''c'']" "''s3.'' @ r @ ''.amazonaws.com''"] assms
  by (simp add: classify_defs region_by_priority_def bucket_from_host bucket_from_path
      revised_host_def canonical_path_abc)

lemma shape3:
  assumes "splits_joined ext" and "ncuribuild ext = spec_ncuribuild" and "alloc_ok ext 191"
      and "uri_at h a = Some (mk_url ''https'' ''s3.us-west-2.amazonaws.com'' ''/mybucket/a/b/c'')"
  shows "NC_s3urlrebuild ext h (Some a) s3 True =
           (Inr (Some (length h)),
            h @ [Some (mk_url ''https'' (''s3.us-west-2.amazonaws.com'') ''/mybucket/a/b/c'')],
            write_s3 s3 ''mybucket'' ''us-west-2'' NCS3)"
  using rebuild_shape [OF assms(1-4),
      of "[''s3'', ''us-west-2'', ''amazonaws'', ''com'']" "[''mybucket'', ''a'', ''b'', ''c'']"
         "None" "Some ''us-west-2''" "None" NCS3 s3 "''us-west-2''" "''mybucket''"
         "[''a'', ''b'', ''c'']" "''s3.us-west-2.amazonaws.com''"] assms
  by (simp add: classify_defs region_by_priority_def bucket_from_host bucket_from_path
      revised_host_def canonical_path_abc)

lemma shape4:
  assumes "splits_joined ext" and "ncuribuild ext = spec_ncuribuild" and "alloc_ok ext 191"
      and "uri_at h a = Some (mk_url ''https'' ''s3.amazonaws.com'' ''/mybucket/a/b/c'')"
      and "region_by_priority None (prior_region s3)
             (NC_getdefaults3region ext (mk_url ''https'' ''s3.amazonaws.com'' ''/mybucket/a/b/c'')) = Inr r"
  shows "NC_s3urlrebuild ext h (Some a) s3 True =
           (Inr (Some (length h)),
            h @ [Some (mk_url ''https'' (''s3.'' @ r @ ''.amazonaws.com'') ''/mybucket/a/b/c'')],
            write_s3 s3 ''mybucket'' r NCS3)"
  using rebuild_shape [OF assms(1-4),
      of "[''s3'', ''amazonaws'', ''com'']" "[''mybucket'', ''a'', ''b'', ''c'']"
         "None" "None" "None" NCS3 s3 "r" "''mybucket''"
         "[''a'', ''b'', ''c'']" "''s3.'' @ r @ ''.amazonaws.com''"] assms
  by (simp add: classify_defs region_by_priority_def bucket_from_host bucket_from_path
      revised_host_def canonical_path_abc)

lemma shape5:
  assumes "splits_joined ext" and "ncuribuild ext = spec_ncuribuild" and "alloc_ok ext 191"
      and "uri_at h a = Some (mk_url ''s3'' ''mybucket'' ''/a/b/c'')"
      and "region_by_priority None (prior_region s3)
             (NC_getdefaults3region ext (mk_url ''s3'' ''mybucket'' ''/a/b/c'')) = Inr r"
  shows "NC_s3urlrebuild ext h (Some a) s3 True =
           (Inr (Some (length h)),
            h @ [Some (mk_url ''https'' (''s3.'' @ r @ ''.amazonaws.com'') ''/mybucket/a/b/c'')],
            write_s3 s3 ''mybucket'' r NCS3)"
  using rebuild_shape [OF assms(1-4),
      of "[''mybucket'']" "[''a'', ''b'', ''c'']"
         "Some ''mybucket''" "None" "None" NCS3 s3 "r" "''mybucket''"
         "[''a'', ''b'', ''c'']" "''s3.'' @ r @ ''.amazonaws.com''"] assms
  by (simp add: classify_defs region_by_priority_def bucket_from_host bucket_from_path
      revised_host_def canonical_path_abc)

lemma shape6:
  assumes "splits_joined ext" and "ncuribuild ext = spec_ncuribuild" and "alloc_ok ext 191"
      and "uri_at h a = Some (mk_url ''https'' ''storage.googleapis.com'' ''/mybucket/a/b/c'')"
      and "region_by_priority None (prior_region s3)
             (NC_getdefaults3region ext (mk_url ''https'' ''storage.googleapis.com'' ''/mybucket/a/b/c'')) = Inr r"
      and "alloc_ok ext 133"
  shows "NC_s3urlrebuild ext h (Some a) s3 True =
           (Inr (Some (length h)),
            h @ [Some (mk_url ''https'' (''storage.googleapis.com'') ''/mybucket/a/b/c'')],
            write_s3 s3 ''mybucket'' r NCS3GS)"
  using rebuild_shape [OF assms(1-4),
      of "[''storage'', ''googleapis'', ''com'']" "[''mybucket'', ''a'', ''b'', ''c'']"
         "None" "None" "Some ''storage.googleapis.com''" NCS3GS s3 "r" "''mybucket''"
         "[''a'', ''b'', ''c'']" "''storage.googleapis.com''"] assms
  by (simp add: classify_defs region_by_priority_def bucket_from_host bucket_from_path
      revised_host_def canonical_path_abc)

lemma shape7:
  assumes "splits_joined ext" and "ncuribuild ext = spec_ncuribuild" and "alloc_ok ext 191"
      and "uri_at h a = Some (mk_url ''gs3'' ''mybucket'' ''/a/b/c'')"
      and "region_by_priority None (prior_region s3)
             (NC_getdefaults3region ext (mk_url ''gs3'' ''mybucket'' ''/a/b/c'')) = Inr r"
  shows "NC_s3urlrebuild ext h (Some a) s3 True =
           (Inr (Some (length h)),
            h @ [Some (mk_url ''https'' (''storage.googleapis.com'') ''/mybucket/a/b/c'')],
            write_s3 s3 ''mybucket'' r NCS3GS)"
  using rebuild_shape [OF assms(1-4),
      of "[''mybucket'']" "[''a'', ''b'', ''c'']"
         "Some ''mybucket''" "None" "None" NCS3GS s3 "r" "''mybucket''"
         "[''a'', ''b'', ''c'']" "''storage.googleapis.com''"] assms
  by (simp add: classify_defs region_by_priority_def bucket_from_host bucket_from_path
      revised_host_def canonical_path_abc)

lemma rebuild_shape_resolver_failed:
  assumes sj: "splits_joined ext"
      and at: "uri_at h a = Some (mk_url prot hst pth)"
      and hs: "list_all (\<lambda>seg. seg \<noteq> [] \<and> CHR ''.'' \<notin> set seg) hs"
              "hst = tl (concat (map (\<lambda>seg. CHR ''.'' # seg) hs))" "hst \<noteq> []"
      and ps: "list_all (\<lambda>seg. seg \<noteq> [] \<and> CHR ''/'' \<notin> set seg) ps"
              "pth = concat (map (\<lambda>seg. ''/'' @ seg) ps)"
      and cl: "classify_host ext (mk_url prot hst pth) hs = Inr (b0, None, h0, sv)"
      and pr: "prior_region s3 = None"
      and df: "NC_getdefaults3region ext (mk_url prot hst pth) = Inl e"
  shows "NC_s3urlrebuild ext h (Some a) s3 newurlp = (Inl e, h, s3)"
proof -
  let ?u = "mk_url prot hst pth"
  have hu: "host ?u = Some hst"
    by (simp add: mk_url_def)
  from sj hs(1,2) have "NC_split_delim ext (Some hst) CHR ''.'' = Inr hs"
    by (rule splits_joined_host)
  then have 1: "NC_split_delim ext (host ?u) CHR ''.'' = Inr hs"
    by (simp add: mk_url_def)
  from sj ps(1) have "NC_split_delim ext (Some (concat (map (\<lambda>seg. ''/'' @ seg) ps))) CHR ''/''
      = Inr ps"
    by (rule splits_joined_path)
  then have 2: "NC_split_delim ext (path ?u) CHR ''/'' = Inr ps"
    by (simp add: mk_url_def ps(2))
  have "rebuild_parts ext ?u s3 = Inl e"
    by (simp add: rebuild_parts_steps [OF 1 2 hu hs(3) cl]
        resolve_region_resolver_failed [OF refl pr df])
  with at show ?thesis
    by (rule NC_s3urlrebuild_fail)
qed

lemma shape2_resolver_failed:
  assumes "splits_joined ext"
      and "uri_at h a = Some (mk_url ''https'' ''mybucket.s3.amazonaws.com'' ''/a/b/c'')"
      and "prior_region s3 = None"
      and "NC_getdefaults3region ext (mk_url ''https'' ''mybucket.s3.amazonaws.com'' ''/a/b/c'') = Inl e"
  shows "NC_s3urlrebuild ext h (Some a) s3 newurlp = (Inl e, h, s3)"
  using rebuild_shape_resolver_failed [OF assms(1,2),
      of "[''mybucket'', ''s3'', ''amazonaws'', ''com'']" "[''a'', ''b'', ''c'']"
         "Some ''mybucket''" "None" NCS3 s3 e newurlp] assms
  by (simp add: classify_defs)

lemma shape4_resolver_failed:
  assumes "splits_joined ext"
      and "uri_at h a = Some (mk_url ''https'' ''s3.amazonaws.com'' ''/mybucket/a/b/c'')"
      and "prior_region s3 = None"
      and "NC_getdefaults3region ext (mk_url ''https'' ''s3.amazonaws.com'' ''/mybucket/a/b/c'') = Inl e"
  shows "NC_s3urlrebuild ext h (Some a) s3 newurlp = (Inl e, h, s3)"
  using rebuild_shape_resolver_failed [OF assms(1,2),
      of "[''s3'', ''amazonaws'', ''com'']" "[''mybucket'', ''a'', ''b'', ''c'']"
         "None" "None" NCS3 s3 e newurlp] assms
  by (simp add: classify_defs)

lemma shape5_resolver_failed:
  assumes "splits_joined ext"
      and "uri_at h a = Some (mk_url ''s3'' ''mybucket'' ''/a/b/c'')"
      and "prior_region s3 = None"
      and "NC_getdefaults3region ext (mk_url ''s3'' ''mybucket'' ''/a/b/c'') = Inl e"
  shows "NC_s3urlrebuild ext h (Some a) s3 newurlp = (Inl e, h, s3)"
  using rebuild_shape_resolver_failed [OF assms(1,2),
      of "[''mybucket'']" "[''a'', ''b'', ''c'']"
         "Some ''mybucket''" "None" NCS3 s3 e newurlp] assms
  by (simp add: classify_defs)

lemma shape6_resolver_failed:
  assumes "splits_joined ext"
      and "uri_at h a = Some (mk_url ''https'' ''storage.googleapis.com'' ''/mybucket/a/b/c'')"
      and "prior_region s3 = None"
      and "NC_getdefaults3region ext (mk_url ''https'' ''storage.googleapis.com'' ''/mybucket/a/b/c'') = Inl e"
      and "alloc_ok ext 133"
  shows "NC_s3urlrebuild ext h (Some a) s3 newurlp = (Inl e, h, s3)"
  using rebuild_shape_resolver_failed [OF assms(1,2),
      of "[''storage'', ''googleapis'', ''com'']" "[''mybucket'', ''a'', ''b'', ''c'']"
         "None" "Some ''storage.googleapis.com''" NCS3GS s3 e newurlp] assms
  by (simp add: classify_defs)

lemma shape7_resolver_failed:
  assumes "splits_joined ext"
      and "uri_at h a = Some (mk_url ''gs3'' ''mybucket'' ''/a/b/c'')"
      and "prior_region s3 = None"
      and "NC_getdefaults3region ext (mk_url ''gs3'' ''mybucket'' ''/a/b/c'') = Inl e"
  shows "NC_s3urlrebuild ext h (Some a) s3 newurlp = (Inl e, h, s3)"
  using rebuild_shape_resolver_failed [OF assms(1,2),
      of "[''mybucket'']" "[''a'', ''b'', ''c'']"
         "Some ''mybucket''" "None" NCS3GS s3 e newurlp] assms
  by (simp add: classify_defs)

text \<open>
  C1, as stated, fails for the shapes that carry no region: the region then comes from
  the prior descriptor or from the default resolver. The input \<^verbatim>\<open>s3://mybucket/a/b/c\<close>
  with no descriptor and the default region \<^verbatim>\<open>us-east-1\<close> is rebuilt to
  \<^verbatim>\<open>https://s3.us-east-1.amazonaws.com/mybucket/a/b/c\<close>.
\<close>

theorem NC_s3urlrebuild_default_region_counterexample:
  "NC_s3urlrebuild (spec_ext (Some ''us-east-1''))
     [Some (mk_url ''s3'' ''mybucket'' ''/a/b/c'')] (Some 0) None True
   = (Inr (Some 1),
      [Some (mk_url ''s3'' ''mybucket'' ''/a/b/c''),
       Some (mk_url ''https'' ''s3.us-east-1.amazonaws.com'' ''/mybucket/a/b/c'')], None) \<and>
   uri (mk_url ''https'' ''s3.us-east-1.amazonaws.com'' ''/mybucket/a/b/c'')
     = Some ''https://s3.us-east-1.amazonaws.com/mybucket/a/b/c'' \<and>
   uri (mk_url ''https'' ''s3.us-east-1.amazonaws.com'' ''/mybucket/a/b/c'')
     \<noteq> Some ''https://s3.us-west-2.amazonaws.com/mybucket/a/b/c''"
  by code_simp

text \<open>
  C1, amended. Let \<^verbatim>\<open>NC_split_delim\<close> give the segments of a joined string back, let
  the full string be built as scheme, \<^verbatim>\<open>://\<close>, host and path, and let the allocations
  of lines 133 and 191 succeed. The two shapes that carry the region (virtual-hosted and
  path-style with region) are rebuilt to
  \<^verbatim>\<open>https://s3.us-west-2.amazonaws.com/mybucket/a/b/c\<close>. The three S3 shapes without a
  region (virtual-hosted and path-style without region, \<^verbatim>\<open>s3://\<close>) are rebuilt to
  \<^verbatim>\<open>https://s3.<r>.amazonaws.com/mybucket/a/b/c\<close> and the two Google shapes to
  \<^verbatim>\<open>https://storage.googleapis.com/mybucket/a/b/c\<close>, where \<open>r\<close> is the prior
  descriptor's region if it is set, else the region the default resolver returns. In each
  case the descriptor, if one is passed, takes the bucket \<^verbatim>\<open>mybucket\<close>, the region and
  the service. For the five shapes without a region, when the descriptor gives no region
  and the default resolver returns an error status, the call returns that status and
  changes nothing.
\<close>

theorem NC_s3urlrebuild_documented_shapes:
  assumes "splits_joined ext" and "ncuribuild ext = spec_ncuribuild"
      and "alloc_ok ext 133" and "alloc_ok ext 191"
      and "uri_at h a = Some u"
  shows
    "(u = mk_url ''https'' ''mybucket.s3.us-west-2.amazonaws.com'' ''/a/b/c'' \<or>
      u = mk_url ''https'' ''s3.us-west-2.amazonaws.com'' ''/mybucket/a/b/c''
        \<longrightarrow> NC_s3urlrebuild ext h (Some a) s3 True =
              (Inr (Some (length h)),
               h @ [Some (mk_url ''https'' ''s3.us-west-2.amazonaws.com'' ''/mybucket/a/b/c'')],
               write_s3 s3 ''mybucket'' ''us-west-2'' NCS3)) \<and>
     (\<forall>r. (u = mk_url ''https'' ''mybucket.s3.amazonaws.com'' ''/a/b/c'' \<or>
           u = mk_url ''https'' ''s3.amazonaws.com'' ''/mybucket/a/b/c'' \<or>
           u = mk_url ''s3'' ''mybucket'' ''/a/b/c'') \<and>
          region_by_priority None (prior_region s3) (NC_getdefaults3region ext u) = Inr r
        \<longrightarrow> NC_s3urlrebuild ext h (Some a) s3 True =
              (Inr (Some (length h)),
               h @ [Some (mk_url ''https'' (''s3.'' @ r @ ''.amazonaws.com'') ''/mybucket/a/b/c'')],
               write_s3 s3 ''mybucket'' r NCS3)) \<and>
     (\<forall>r. (u = mk_url ''https'' ''storage.googleapis.com'' ''/mybucket/a/b/c'' \<or>
           u = mk_url ''gs3'' ''mybucket'' ''/a/b/c'') \<and>
          region_by_priority None (prior_region s3) (NC_getdefaults3region ext u) = Inr r
        \<longrightarrow> NC_s3urlrebuild ext h (Some a) s3 True =
              (Inr (Some (length h)),
               h @ [Some (mk_url ''https'' ''storage.googleapis.com'' ''/mybucket/a/b/c'')],
               write_s3 s3 ''mybucket'' r NCS3GS)) \<and>
     (\<forall>e. (u = mk_url ''https'' ''mybucket.s3.amazonaws.com'' ''/a/b/c'' \<or>
           u = mk_url ''https'' ''s3.amazonaws.com'' ''/mybucket/a/b/c'' \<or>
           u = mk_url ''s3'' ''mybucket'' ''/a/b/c'' \<or>
           u = mk_url ''https'' ''storage.googleapis.com'' ''/mybucket/a/b/c'' \<or>
           u = mk_url ''gs3'' ''mybucket'' ''/a/b/c'') \<and>
          prior_region s3 = None \<and> NC_getdefaults3region ext u = Inl e
        \<longrightarrow> NC_s3urlrebuild ext h (Some a) s3 True = (Inl e, h, s3))"
proof (intro conjI allI impI)
  assume "u = mk_url ''https'' ''mybucket.s3.us-west-2.amazonaws.com'' ''/a/b/c'' \<or>
      u = mk_url ''https'' ''s3.us-west-2.amazonaws.com'' ''/mybucket/a/b/c''"
  then show "NC_s3urlrebuild ext h (Some a) s3 True =
              (Inr (Some (length h)),
               h @ [Some (mk_url ''https'' ''s3.us-west-2.amazonaws.com'' ''/mybucket/a/b/c'')],
               write_s3 s3 ''mybucket'' ''us-west-2'' NCS3)"
    using assms(5) shape1 [OF assms(1,2,4)] shape3 [OF assms(1,2,4)]
    by blast
next
  fix r
  assume "(u = mk_url ''https'' ''mybucket.s3.amazonaws.com'' ''/a/b/c'' \<or>
           u = mk_url ''https'' ''s3.amazonaws.com'' ''/mybucket/a/b/c'' \<or>
           u = mk_url ''s3'' ''mybucket'' ''/a/b/c'') \<and>
          region_by_priority None (prior_region s3) (NC_getdefaults3region ext u) = Inr r"
  then show "NC_s3urlrebuild ext h (Some a) s3 True =
              (Inr (Some (length h)),
               h @ [Some (mk_url ''https'' (''s3.'' @ r @ ''.amazonaws.com'') ''/mybucket/a/b/c'')],
               write_s3 s3 ''mybucket'' r NCS3)"
    using assms(5) shape2 [OF assms(1,2,4)] shape4 [OF assms(1,2,4)] shape5 [OF assms(1,2,4)]
    by blast
next
  fix r
  assume "(u = mk_url ''https'' ''storage.googleapis.com'' ''/mybucket/a/b/c'' \<or>
           u = mk_url ''gs3'' ''mybucket'' ''/a/b/c'') \<and>
          region_by_priority None (prior_region s3) (NC_getdefaults3region ext u) = Inr r"
  then show "NC_s3urlrebuild ext h (Some a) s3 True =
              (Inr (Some (length h)),
               h @ [Some (mk_url ''https'' ''storage.googleapis.com'' ''/mybucket/a/b/c'')],
               write_s3 s3 ''mybucket'' r NCS3GS)"
    using assms(5) shape6 [OF assms(1,2,4) _ _ assms(3)] shape7 [OF assms(1,2,4)]
    by blast
next
  fix e
  assume "(u = mk_url ''https'' ''mybucket.s3.amazonaws.com'' ''/a/b/c'' \<or>
           u = mk_url ''https'' ''s3.amazonaws.com'' ''/mybucket/a/b/c'' \<or>
           u = mk_url ''s3'' ''mybucket'' ''/a/b/c'' \<or>
           u = mk_url ''https'' ''storage.googleapis.com'' ''/mybucket/a/b/c'' \<or>
           u = mk_url ''gs3'' ''mybucket'' ''/a/b/c'') \<and>
          prior_region s3 = None \<and> NC_getdefaults3region ext u = Inl e"
  then show "NC_s3urlrebuild ext h (Some a) s3 True = (Inl e, h, s3)"
    using assms(5)
    by (elim conjE disjE)
       (simp_all add: shape2_resolver_failed [OF assms(1)] shape4_resolver_failed [OF assms(1)]
          shape5_resolver_failed [OF assms(1)] shape6_resolver_failed [OF assms(1) _ _ _ assms(3)]
          shape7_resolver_failed [OF assms(1)])
qed

theorem NC_s3urlrebuild_documented_shapes_witness:
  "NC_s3urlrebuild (spec_ext (Some ''us-east-1''))
     [Some (mk_url ''https'' ''mybucket.s3.us-west-2.amazonaws.com'' ''/a/b/c'')] (Some 0) None True
   = (Inr (Some 1),
      [Some (mk_url ''https'' ''mybucket.s3.us-west-2.amazonaws.com'' ''/a/b/c''),
       Some (mk_url ''https'' ''s3.us-west-2.amazonaws.com'' ''/mybucket/a/b/c'')], None) \<and>
   NC_s3urlrebuild (spec_ext (Some ''us-west-2''))
     [Some (mk_url ''gs3'' ''mybucket'' ''/a/b/c'')] (Some 0) None True
   = (Inr (Some 1),
      [Some (mk_url ''gs3'' ''mybucket'' ''/a/b/c''),
       Some (mk_url ''https'' ''storage.googleapis.com'' ''/mybucket/a/b/c'')], None) \<and>
   NC_s3urlrebuild (spec_ext_failing (NC_ERR (- 36)))
     [Some (mk_url ''s3'' ''mybucket'' ''/a/b/c'')] (Some 0) None True
   = (Inl (NC_ERR (- 36)), [Some (mk_url ''s3'' ''mybucket'' ''/a/b/c'')], None)"
proof -
  have sj: "splits_joined (spec_ext dflt)" for dflt
    by (rule spec_ext_splits_joined)
  have fb: "ncuribuild (spec_ext_failing e) = spec_ncuribuild" for e
    by (simp add: spec_ext_failing_def spec_ext_def)
  have fal: "alloc_ok (spec_ext_failing e) n" for e n
    by (simp add: spec_ext_failing_def spec_ext_def)
  have fr: "NC_getdefaults3region (spec_ext_failing (NC_ERR (- 36)))
       (mk_url ''s3'' ''mybucket'' ''/a/b/c'') = Inl (NC_ERR (- 36))"
    by (simp add: spec_ext_failing_def)
  have b: "ncuribuild (spec_ext dflt) = spec_ncuribuild" for dflt
    by (simp add: spec_ext_def)
  have al: "alloc_ok (spec_ext dflt) n" for dflt n
    by (simp add: spec_ext_def)
  have at: "uri_at [Some v] 0 = Some v" for v
    by (simp add: uri_at_def)
  have pri: "region_by_priority None (prior_region None)
       (NC_getdefaults3region (spec_ext (Some ''us-west-2'')) (mk_url ''gs3'' ''mybucket'' ''/a/b/c''))
     = Inr ''us-west-2''"
    by (simp add: region_by_priority_def prior_region_def spec_ext_def)
  from NC_s3urlrebuild_documented_shapes [OF sj b al al at, of _ _ None]
  have "NC_s3urlrebuild (spec_ext (Some ''us-east-1''))
     [Some (mk_url ''https'' ''mybucket.s3.us-west-2.amazonaws.com'' ''/a/b/c'')] (Some 0) None True
   = (Inr (Some 1),
      [Some (mk_url ''https'' ''mybucket.s3.us-west-2.amazonaws.com'' ''/a/b/c''),
       Some (mk_url ''https'' ''s3.us-west-2.amazonaws.com'' ''/mybucket/a/b/c'')], None)"
    by (simp add: write_s3_def)
  moreover
  from NC_s3urlrebuild_documented_shapes [OF sj b al al at, of _ _ None] pri
  have "NC_s3urlrebuild (spec_ext (Some ''us-west-2''))
     [Some (mk_url ''gs3'' ''mybucket'' ''/a/b/c'')] (Some 0) None True
   = (Inr (Some 1),
      [Some (mk_url ''gs3'' ''mybucket'' ''/a/b/c''),
       Some (mk_url ''https'' ''storage.googleapis.com'' ''/mybucket/a/b/c'')], None)"
    by (simp add: write_s3_def)
  moreover
  from NC_s3urlrebuild_documented_shapes
    [of "spec_ext_failing (NC_ERR (- 36))" _ _ _ None,
     OF spec_ext_failing_splits_joined fb fal fal at] fr
  have "NC_s3urlrebuild (spec_ext_failing (NC_ERR (- 36)))
     [Some (mk_url ''s3'' ''mybucket'' ''/a/b/c'')] (Some 0) None True
   = (Inl (NC_ERR (- 36)), [Some (mk_url ''s3'' ''mybucket'' ''/a/b/c'')], None)"
    by (simp add: prior_region_def)
  ultimately show ?thesis by simp
qed

subsection \<open>The steps of the descriptor builder\<close>

lemma uri_at_new: "uri_at (h @ [c]) (length h) = c"
  by (simp add: uri_at_def)

lemma uri_at_freed: "uri_at (h @ [None]) a = uri_at h a"
  by (simp add: uri_at_def nth_append)

lemma list_at_freed: "list_at (lh @ [None]) a = list_at lh a"
  by (simp add: list_at_def nth_append)

lemma pathsegments_cell:
  "(let lh2 = nclistpush_all (lh @ [Some []]) (length lh) segs
    in if nclistlength lh2 (length lh) > 0 then snd (nclistremove_at lh2 (length lh) 0) else lh2)
   = lh @ [Some (drop 1 segs)]"
  by (cases segs)
     (simp_all add: nclistpush_all_def nclistlength_def nclistremove_at_def list_at_def
        nclistremove_def Let_def)

lemma pathsegments_freed: "nclistfreeall (lh @ [c]) (Some (length lh)) = lh @ [None]"
  by (simp add: nclistfreeall_def)

lemma list_at_new: "list_at (lh @ [c]) (length lh) = c"
  by (simp add: list_at_def)

lemma NC_s3urlprocess_rebuild_failed:
  assumes "uri_at h a = Some u" and "NC_getactives3profile ext u = Inr profile0"
      and "d1 = d\<lparr>profile := Some (case profile0 of None \<Rightarrow> ''no'' | Some p \<Rightarrow> p)\<rparr>"
      and "NC_s3urlrebuild ext h (Some a) (Some d1) True = (Inl e, h1, s3a)"
  shows "NC_s3urlprocess ext h lh (Some a) (Some d) newurlp = (Inl e, h1, lh, s3a)"
  using assms by (simp add: NC_s3urlprocess_def Let_def)

lemma NC_s3urlprocess_rebuilt:
  assumes "uri_at h a = Some u" and "NC_getactives3profile ext u = Inr profile0"
      and "d1 = d\<lparr>profile := Some (case profile0 of None \<Rightarrow> ''no'' | Some p \<Rightarrow> p)\<rparr>"
      and "NC_s3urlrebuild ext h (Some a) (Some d1) True = (Inr (Some (length h)), h @ [Some v], Some d2)"
      and "host v = Some hst" and "d3 = d2\<lparr>s3host := Some hst\<rparr>"
  shows "NC_s3urlprocess ext h lh (Some a) (Some d) newurlp =
     (case NC_split_delim ext (path v) CHR ''/'' of
        Inl e \<Rightarrow> (Inl e, h @ [None], lh @ [None], Some d3)
      | Inr segs \<Rightarrow>
          (case NC_join ext (drop 1 segs) of
             Inl e \<Rightarrow> (Inl e, h @ [None], lh @ [None], Some d3)
           | Inr key \<Rightarrow>
               (if newurlp
                then (Inr (Some (length h)), h @ [Some v], lh @ [None],
                      Some (d3\<lparr>rootkey := Some key\<rparr>))
                else (Inr None, h @ [None], lh @ [None], Some (d3\<lparr>rootkey := Some key\<rparr>)))))"
proof (cases "NC_split_delim ext (path v) CHR ''/''")
  case (Inl e)
  with assms(1,2) assms(4) [unfolded assms(3)] show ?thesis
    by (simp add: NC_s3urlprocess_def Let_def uri_at_new ncurifree_new nclistnew_def
        pathsegments_freed assms(3,5,6))
next
  case (Inr segs)
  note cell = pathsegments_cell [of lh segs, unfolded Let_def]
  from Inr assms(1,2) assms(4) [unfolded assms(3)] show ?thesis
    by (simp only: NC_s3urlprocess_def Let_def uri_at_new ncurifree_new nclistnew_def
        cell list_at_new pathsegments_freed assms(3,5,6) option.case sum.case prod.case
        split: sum.splits)
qed

lemma NC_s3urlprocess_cases:
  assumes "NC_s3urlprocess ext h lh url s3 newurlp = (st, h', lh', s3')"
  obtains
    (null) "url = None \<or> s3 = None \<or> (\<exists>a. url = Some a \<and> uri_at h a = None)"
      "st = Inl NC_EURL" "h' = h" "lh' = lh" "s3' = s3"
  | (profile) a u d e where "url = Some a" "uri_at h a = Some u" "s3 = Some d"
      "NC_getactives3profile ext u = Inl e"
      "st = Inl e" "h' = h" "lh' = lh" "s3' = s3"
  | (rebuild) a u d profile0 d1 e where "url = Some a" "uri_at h a = Some u" "s3 = Some d"
      "NC_getactives3profile ext u = Inr profile0"
      "d1 = d\<lparr>profile := Some (case profile0 of None \<Rightarrow> ''no'' | Some p \<Rightarrow> p)\<rparr>"
      "NC_s3urlrebuild ext h url (Some d1) True = (Inl e, h, Some d1)"
      "st = Inl e" "h' = h" "lh' = lh" "s3' = Some d1"
  | (rebuilt) a u d profile0 d1 bkt reg sv hst pth v d3 where
      "url = Some a" "uri_at h a = Some u" "s3 = Some d"
      "NC_getactives3profile ext u = Inr profile0"
      "d1 = d\<lparr>profile := Some (case profile0 of None \<Rightarrow> ''no'' | Some p \<Rightarrow> p)\<rparr>"
      "rebuild_parts ext u (Some d1) = Inr (bkt, reg, sv, Some hst, pth)"
      "v = rebuilt_url ext u hst pth"
      "NC_s3urlrebuild ext h url (Some d1) True =
          (Inr (Some (length h)), h @ [Some v],
           Some (d1\<lparr>bucket := Some bkt, region := Some reg, svc := sv\<rparr>))"
      "d3 = d1\<lparr>bucket := Some bkt, region := Some reg, svc := sv, s3host := Some hst\<rparr>"
      "lh' = lh @ [None]"
      "(\<exists>e. NC_split_delim ext (Some pth) CHR ''/'' = Inl e \<and>
              st = Inl e \<and> h' = h @ [None] \<and> s3' = Some d3) \<or>
       (\<exists>segs e. NC_split_delim ext (Some pth) CHR ''/'' = Inr segs \<and>
              NC_join ext (drop 1 segs) = Inl e \<and>
              st = Inl e \<and> h' = h @ [None] \<and> s3' = Some d3) \<or>
       (\<exists>segs key. NC_split_delim ext (Some pth) CHR ''/'' = Inr segs \<and>
              NC_join ext (drop 1 segs) = Inr key \<and>
              s3' = Some (d3\<lparr>rootkey := Some key\<rparr>) \<and>
              (if newurlp then st = Inr (Some (length h)) \<and> h' = h @ [Some v]
               else st = Inr None \<and> h' = h @ [None]))"
proof (cases url)
  case None
  with assms show ?thesis by (intro null) (simp_all add: NC_s3urlprocess_def)
next
  case a: (Some a)
  show ?thesis
  proof (cases s3)
    case None
    with a assms show ?thesis by (intro null) (simp_all add: NC_s3urlprocess_def)
  next
    case d: (Some d)
    show ?thesis
    proof (cases "uri_at h a")
      case None
      with a d assms show ?thesis by (intro null) (simp_all add: NC_s3urlprocess_def)
    next
      case u: (Some u)
      show ?thesis
      proof (cases "NC_getactives3profile ext u")
        case (Inl e)
        with a d u assms have "st = Inl e" "h' = h" "lh' = lh" "s3' = s3"
          by (simp_all add: NC_s3urlprocess_def)
        with a u d Inl show ?thesis by (rule profile)
      next
        case (Inr profile0)
        define d1 where "d1 = d\<lparr>profile := Some (case profile0 of None \<Rightarrow> ''no'' | Some p \<Rightarrow> p)\<rparr>"
        obtain st1 h1 s3a where run: "NC_s3urlrebuild ext h (Some a) (Some d1) True = (st1, h1, s3a)"
          by (cases "NC_s3urlrebuild ext h (Some a) (Some d1) True") auto
        from NC_s3urlrebuild_cases [OF run] u
        consider (failed) e where "st1 = Inl e" "h1 = h" "s3a = Some d1"
          | (ok) bkt reg sv hst pth where
              "rebuild_parts ext u (Some d1) = Inr (bkt, reg, sv, Some hst, pth)"
              "st1 = Inr (Some (length h))" "h1 = h @ [Some (rebuilt_url ext u hst pth)]"
              "s3a = Some (d1\<lparr>bucket := Some bkt, region := Some reg, svc := sv\<rparr>)"
          by (auto simp add: write_s3_def)
        then show ?thesis
        proof cases
          case failed
          from run failed have run': "NC_s3urlrebuild ext h (Some a) (Some d1) True = (Inl e, h, Some d1)"
            by simp
          from NC_s3urlprocess_rebuild_failed [OF u Inr d1_def run', of lh newurlp] assms a d
          have "st = Inl e" "h' = h" "lh' = lh" "s3' = Some d1"
            by simp_all
          with a u d Inr d1_def run' [folded a] show ?thesis by (rule rebuild)
        next
          case ok
          define v where "v = rebuilt_url ext u hst pth"
          define d3 where "d3 = d1\<lparr>bucket := Some bkt, region := Some reg, svc := sv, s3host := Some hst\<rparr>"
          have acc: "host v = Some hst" "path v = Some pth"
            by (simp_all add: v_def rebuilt_url_def Let_def)
          from run ok have run': "NC_s3urlrebuild ext h (Some a) (Some d1) True =
              (Inr (Some (length h)), h @ [Some v],
               Some (d1\<lparr>bucket := Some bkt, region := Some reg, svc := sv\<rparr>))"
            by (simp add: v_def)
          have d3: "d3 = (d1\<lparr>bucket := Some bkt, region := Some reg, svc := sv\<rparr>)\<lparr>s3host := Some hst\<rparr>"
            by (simp add: d3_def)
          from NC_s3urlprocess_rebuilt [OF u Inr d1_def run' acc(1) d3, of lh newurlp] assms a d
          have eq: "(st, h', lh', s3') =
            (case NC_split_delim ext (Some pth) CHR ''/'' of
               Inl e \<Rightarrow> (Inl e, h @ [None], lh @ [None], Some d3)
             | Inr segs \<Rightarrow>
                 (case NC_join ext (drop 1 segs) of
                    Inl e \<Rightarrow> (Inl e, h @ [None], lh @ [None], Some d3)
                  | Inr key \<Rightarrow>
                      (if newurlp
                       then (Inr (Some (length h)), h @ [Some v], lh @ [None],
                             Some (d3\<lparr>rootkey := Some key\<rparr>))
                       else (Inr None, h @ [None], lh @ [None], Some (d3\<lparr>rootkey := Some key\<rparr>)))))"
            by (simp add: acc)
          have lh': "lh' = lh @ [None]"
            using eq by (simp split: sum.splits if_splits)
          have tail: "(\<exists>e. NC_split_delim ext (Some pth) CHR ''/'' = Inl e \<and>
              st = Inl e \<and> h' = h @ [None] \<and> s3' = Some d3) \<or>
            (\<exists>segs e. NC_split_delim ext (Some pth) CHR ''/'' = Inr segs \<and>
              NC_join ext (drop 1 segs) = Inl e \<and>
              st = Inl e \<and> h' = h @ [None] \<and> s3' = Some d3) \<or>
            (\<exists>segs key. NC_split_delim ext (Some pth) CHR ''/'' = Inr segs \<and>
              NC_join ext (drop 1 segs) = Inr key \<and>
              s3' = Some (d3\<lparr>rootkey := Some key\<rparr>) \<and>
              (if newurlp then st = Inr (Some (length h)) \<and> h' = h @ [Some v]
               else st = Inr None \<and> h' = h @ [None]))"
          proof (cases "NC_split_delim ext (Some pth) CHR ''/''")
            case (Inl e)
            with eq show ?thesis by simp
          next
            case segs: (Inr segs)
            show ?thesis
            proof (cases "NC_join ext (drop 1 segs)")
              case (Inl e)
              with eq segs show ?thesis by simp
            next
              case key: (Inr key)
              with eq segs show ?thesis by (simp split: if_splits)
            qed
          qed
          from a u d Inr d1_def ok(1) v_def run' [folded a] d3_def lh' tail
          show ?thesis
            by (rule rebuilt)
        qed
      qed
    qed
  qed
qed

subsection \<open>A failing descriptor builder\<close>

text \<open>
  C9, as stated, fails: the descriptor is written as the function goes and is not
  restored. For a URL with an empty host the call fails with \<^verbatim>\<open>NC_EURL\<close>, and the
  descriptor, whose profile was unset, comes back with the profile \<^verbatim>\<open>no\<close> (line 250
  runs before the rebuilder).
\<close>

theorem NC_s3urlprocess_profile_written_counterexample:
  "NC_s3urlprocess (spec_ext (Some ''us-east-1''))
     [Some (mk_url ''https'' [] ''/mybucket/data'')] [] (Some 0) (Some calloc_NCS3INFO) True
   = (Inl NC_EURL, [Some (mk_url ''https'' [] ''/mybucket/data'')], [],
      Some (calloc_NCS3INFO\<lparr>profile := Some ''no''\<rparr>)) \<and>
   profile calloc_NCS3INFO = None \<and>
   Some (calloc_NCS3INFO\<lparr>profile := Some ''no''\<rparr>) \<noteq> Some calloc_NCS3INFO"
  by code_simp

text \<open>
  C9, amended. When \<^verbatim>\<open>NC_s3urlprocess\<close> returns an error code, no pointer is stored
  through \<^verbatim>\<open>newurlp\<close>, and every cell of the heap of URLs and of the heap of lists
  holds what it held before the call: the URL copied by the rebuilder and the
  path-segment list of line 256, once allocated, have been freed. The descriptor is not
  restored; it is as the failing step found it:
  \<^item> the \<^verbatim>\<open>NULL\<close> test of line 245 fails: the code is \<^verbatim>\<open>NC_EURL\<close>, and the descriptor
    and both heaps are as they were;
  \<^item> the profile resolver fails with the code: the descriptor and both heaps are as they
    were;
  \<^item> the rebuilder fails with the code: both heaps are as they were, and the descriptor is
    the caller's with its profile replaced by the resolved profile (\<^verbatim>\<open>no\<close> when the
    resolver gave none);
  \<^item> the rebuilder succeeds and \<^verbatim>\<open>NC_split_delim\<close> fails with the code on the path of
    the rebuilt URL, or \<^verbatim>\<open>NC_join\<close> fails with the code on the segments after the
    first: each heap has one more cell, freed, and the descriptor is the caller's with the
    resolved profile, the bucket, region and service the rebuilder wrote, and the host of
    the rebuilt URL; after a failing \<^verbatim>\<open>NC_join\<close> nothing is said of the root key.
\<close>

theorem NC_s3urlprocess_failure:
  assumes "NC_s3urlprocess ext h lh url s3 newurlp = (Inl e, h', lh', s3')"
      and "e \<noteq> NC_ABORT"
  shows "(\<forall>a. uri_at h' a = uri_at h a) \<and> (\<forall>a. list_at lh' a = list_at lh a) \<and>
     ((url = None \<or> s3 = None \<or> (\<exists>a. url = Some a \<and> uri_at h a = None)) \<and>
        e = NC_EURL \<and> h' = h \<and> lh' = lh \<and> s3' = s3 \<or>
      (\<exists>a u d. url = Some a \<and> uri_at h a = Some u \<and> s3 = Some d \<and>
         NC_getactives3profile ext u = Inl e \<and> h' = h \<and> lh' = lh \<and> s3' = s3) \<or>
      (\<exists>a u d profile0 d1. url = Some a \<and> uri_at h a = Some u \<and> s3 = Some d \<and>
         NC_getactives3profile ext u = Inr profile0 \<and>
         d1 = d\<lparr>profile := Some (case profile0 of None \<Rightarrow> ''no'' | Some p \<Rightarrow> p)\<rparr> \<and>
         NC_s3urlrebuild ext h url (Some d1) True = (Inl e, h, Some d1) \<and>
         h' = h \<and> lh' = lh \<and> s3' = Some d1) \<or>
      (\<exists>a u d profile0 d1 v bkt reg sv hst d3. url = Some a \<and> uri_at h a = Some u \<and> s3 = Some d \<and>
         NC_getactives3profile ext u = Inr profile0 \<and>
         d1 = d\<lparr>profile := Some (case profile0 of None \<Rightarrow> ''no'' | Some p \<Rightarrow> p)\<rparr> \<and>
         NC_s3urlrebuild ext h url (Some d1) True =
           (Inr (Some (length h)), h @ [Some v],
            Some (d1\<lparr>bucket := Some bkt, region := Some reg, svc := sv\<rparr>)) \<and>
         host v = Some hst \<and>
         d3 = d1\<lparr>bucket := Some bkt, region := Some reg, svc := sv, s3host := Some hst\<rparr> \<and>
         h' = h @ [None] \<and> lh' = lh @ [None] \<and>
         (NC_split_delim ext (path v) CHR ''/'' = Inl e \<and> s3' = Some d3 \<or>
          (\<exists>segs key. NC_split_delim ext (path v) CHR ''/'' = Inr segs \<and>
             NC_join ext (drop 1 segs) = Inl e \<and> s3' = Some (d3\<lparr>rootkey := key\<rparr>)))))"
proof -
  from assms(1) show ?thesis
  proof (cases rule: NC_s3urlprocess_cases)
    case null
    then show ?thesis by simp
  next
    case (profile a u d e')
    then have "\<exists>a u d. url = Some a \<and> uri_at h a = Some u \<and> s3 = Some d \<and>
         NC_getactives3profile ext u = Inl e \<and> h' = h \<and> lh' = lh \<and> s3' = s3"
      by simp
    with profile(6,7) show ?thesis by simp
  next
    case (rebuild a u d profile0 d1 e')
    then have "\<exists>a u d profile0 d1. url = Some a \<and> uri_at h a = Some u \<and> s3 = Some d \<and>
         NC_getactives3profile ext u = Inr profile0 \<and>
         d1 = d\<lparr>profile := Some (case profile0 of None \<Rightarrow> ''no'' | Some p \<Rightarrow> p)\<rparr> \<and>
         NC_s3urlrebuild ext h url (Some d1) True = (Inl e, h, Some d1) \<and>
         h' = h \<and> lh' = lh \<and> s3' = Some d1"
      by simp
    with rebuild(8,9) show ?thesis by simp
  next
    case (rebuilt a u d profile0 d1 bkt reg sv hst pth v d3)
    have acc: "host v = Some hst" "path v = Some pth"
      by (simp_all add: rebuilt(7) rebuilt_url_def Let_def)
    from rebuilt(11) consider
      (split) "NC_split_delim ext (Some pth) CHR ''/'' = Inl e" "h' = h @ [None]" "s3' = Some d3"
    | (join) segs where "NC_split_delim ext (Some pth) CHR ''/'' = Inr segs"
        "NC_join ext (drop 1 segs) = Inl e" "h' = h @ [None]" "s3' = Some d3"
      by (auto split: if_splits)
    then have late: "h' = h @ [None] \<and>
       (NC_split_delim ext (path v) CHR ''/'' = Inl e \<and> s3' = Some d3 \<or>
          (\<exists>segs key. NC_split_delim ext (path v) CHR ''/'' = Inr segs \<and>
             NC_join ext (drop 1 segs) = Inl e \<and> s3' = Some (d3\<lparr>rootkey := key\<rparr>)))"
    proof cases
      case split
      then show ?thesis by (simp add: acc)
    next
      case join
      have "d3\<lparr>rootkey := rootkey d3\<rparr> = d3" by simp
      with join(4) have "s3' = Some (d3\<lparr>rootkey := rootkey d3\<rparr>)" by simp
      with join(1,2,3) show ?thesis unfolding acc by blast
    qed
    have heaps: "(\<forall>a. uri_at h' a = uri_at h a) \<and> (\<forall>a. list_at lh' a = list_at lh a)"
      using late rebuilt(10) by (simp add: uri_at_freed list_at_freed)
    have "\<exists>a u d profile0 d1 v bkt reg sv hst d3. url = Some a \<and> uri_at h a = Some u \<and> s3 = Some d \<and>
         NC_getactives3profile ext u = Inr profile0 \<and>
         d1 = d\<lparr>profile := Some (case profile0 of None \<Rightarrow> ''no'' | Some p \<Rightarrow> p)\<rparr> \<and>
         NC_s3urlrebuild ext h url (Some d1) True =
           (Inr (Some (length h)), h @ [Some v],
            Some (d1\<lparr>bucket := Some bkt, region := Some reg, svc := sv\<rparr>)) \<and>
         host v = Some hst \<and>
         d3 = d1\<lparr>bucket := Some bkt, region := Some reg, svc := sv, s3host := Some hst\<rparr> \<and>
         h' = h @ [None] \<and> lh' = lh @ [None] \<and>
         (NC_split_delim ext (path v) CHR ''/'' = Inl e \<and> s3' = Some d3 \<or>
          (\<exists>segs key. NC_split_delim ext (path v) CHR ''/'' = Inr segs \<and>
             NC_join ext (drop 1 segs) = Inl e \<and> s3' = Some (d3\<lparr>rootkey := key\<rparr>)))"
      using rebuilt(1-5) rebuilt(8) acc(1) rebuilt(9) late rebuilt(10)
      by (intro exI conjI) (erule conjunct1 conjunct2 | assumption)+
    with heaps show ?thesis by simp
  qed
qed

theorem NC_s3urlprocess_failure_witness:
  "NC_s3urlprocess ((spec_ext (Some ''us-east-1''))\<lparr>NC_join := (\<lambda>segs. Inl NC_ENOMEM)\<rparr>)
     [Some (mk_url ''https'' ''s3.amazonaws.com'' ''/mybucket/data'')] [] (Some 0)
     (Some calloc_NCS3INFO) True
   = (Inl NC_ENOMEM, [Some (mk_url ''https'' ''s3.amazonaws.com'' ''/mybucket/data''), None],
      [None],
      Some (calloc_NCS3INFO\<lparr>profile := Some ''no'', bucket := Some ''mybucket'',
              region := Some ''us-east-1'', svc := NCS3,
              s3host := Some ''s3.us-east-1.amazonaws.com''\<rparr>)) \<and>
   NC_ENOMEM \<noteq> NC_ABORT \<and>
   uri_at [Some (mk_url ''https'' ''s3.amazonaws.com'' ''/mybucket/data''), None] 1
     = uri_at [Some (mk_url ''https'' ''s3.amazonaws.com'' ''/mybucket/data'')] 1 \<and>
   list_at [None] 0 = list_at [] 0"
proof -
  have run: "NC_s3urlprocess ((spec_ext (Some ''us-east-1''))\<lparr>NC_join := (\<lambda>segs. Inl NC_ENOMEM)\<rparr>)
     [Some (mk_url ''https'' ''s3.amazonaws.com'' ''/mybucket/data'')] [] (Some 0)
     (Some calloc_NCS3INFO) True
   = (Inl NC_ENOMEM, [Some (mk_url ''https'' ''s3.amazonaws.com'' ''/mybucket/data''), None],
      [None],
      Some (calloc_NCS3INFO\<lparr>profile := Some ''no'', bucket := Some ''mybucket'',
              region := Some ''us-east-1'', svc := NCS3,
              s3host := Some ''s3.us-east-1.amazonaws.com''\<rparr>))"
    by code_simp
  have ne: "NC_ENOMEM \<noteq> NC_ABORT" by simp
  from NC_s3urlprocess_failure [OF run ne]
  have "uri_at [Some (mk_url ''https'' ''s3.amazonaws.com'' ''/mybucket/data''), None] 1
     = uri_at [Some (mk_url ''https'' ''s3.amazonaws.com'' ''/mybucket/data'')] 1"
    "list_at [None] 0 = list_at [] 0"
    by blast+
  with run ne show ?thesis by simp
qed

subsection \<open>A successful descriptor builder\<close>

lemma resolve_region_origin:
  "resolve_region ext u (Some d) r0 = Inr r \<Longrightarrow>
     r0 = Some r \<or> r0 = None \<and> region d = Some r \<or>
     r0 = None \<and> region d = None \<and> NC_getdefaults3region ext u = Inr (Some r)"
  by (cases r0)
     (auto simp add: resolve_region_def nulldup_def Let_def split: option.splits sum.splits)

lemma resolve_bucket_origin:
  "resolve_bucket (Some d) b0 ps = Inr (b, rest) \<Longrightarrow>
     b0 = Some b \<and> rest = ps \<or> b0 = None \<and> ps = b # rest \<or>
     b0 = None \<and> ps = [] \<and> rest = [] \<and> bucket d = Some b"
  by (cases b0; cases ps)
     (auto simp add: resolve_bucket_def nulldup_def nclistremove_def Let_def
        split: option.splits)

lemma rebuild_parts_Inr:
  assumes "rebuild_parts ext u (Some d) = Inr (bkt, reg, sv, ho, pth)"
  shows "\<exists>hs ps b0 r0 h0 rest.
     NC_split_delim ext (host u) CHR ''.'' = Inr hs \<and>
     NC_split_delim ext (path u) CHR ''/'' = Inr ps \<and>
     classify_host ext u hs = Inr (b0, r0, h0, sv) \<and>
     resolve_region ext u (Some d) r0 = Inr reg \<and>
     resolve_bucket (Some d) b0 ps = Inr (bkt, rest) \<and>
     ho = revised_host sv reg h0 \<and> pth = revised_path bkt rest"
  using assms
  by (auto simp add: rebuild_parts_def split: sum.splits if_splits prod.splits)

text \<open>
  C8, as stated, fails: the root key is the canonical path without its first segment, and
  what follows may begin with a segment equal to the bucket. For
  \<^verbatim>\<open>https://s3.us-west-2.amazonaws.com/mybucket/mybucket/data\<close> the bucket is
  \<^verbatim>\<open>mybucket\<close> and the root key is \<^verbatim>\<open>mybucket/data\<close>.
\<close>

theorem NC_s3urlprocess_rootkey_counterexample:
  "NC_s3urlprocess (spec_ext None)
     [Some (mk_url ''https'' ''s3.us-west-2.amazonaws.com'' ''/mybucket/mybucket/data'')] []
     (Some 0) (Some calloc_NCS3INFO) True
   = (Inr (Some 1),
      [Some (mk_url ''https'' ''s3.us-west-2.amazonaws.com'' ''/mybucket/mybucket/data''),
       Some (mk_url ''https'' ''s3.us-west-2.amazonaws.com'' ''/mybucket/mybucket/data'')],
      [None],
      Some \<lparr>s3host = Some ''s3.us-west-2.amazonaws.com'', region = Some ''us-west-2'',
            bucket = Some ''mybucket'', rootkey = Some ''mybucket/data'',
            profile = Some ''no'', svc = NCS3\<rparr>) \<and>
   takeWhile (\<lambda>c. c \<noteq> CHR ''/'') ''mybucket/data'' = ''mybucket''"
  by code_simp

text \<open>
  Nor are region and bucket always non-empty: the code tests them against \<^verbatim>\<open>NULL\<close>
  only, so an empty region in the prior descriptor goes through.
\<close>

lemma NC_s3urlprocess_empty_region:
  "NC_s3urlprocess (spec_ext (Some ''us-east-1''))
     [Some (mk_url ''https'' ''s3.amazonaws.com'' ''/mybucket/a'')] [] (Some 0)
     (Some (calloc_NCS3INFO\<lparr>region := Some []\<rparr>)) True
   = (Inr (Some 1),
      [Some (mk_url ''https'' ''s3.amazonaws.com'' ''/mybucket/a''),
       Some (mk_url ''https'' ''s3..amazonaws.com'' ''/mybucket/a'')],
      [None],
      Some \<lparr>s3host = Some ''s3..amazonaws.com'', region = Some [],
            bucket = Some ''mybucket'', rootkey = Some ''a'',
            profile = Some ''no'', svc = NCS3\<rparr>)"
  by code_simp

text \<open>
  C8, amended. After a successful \<^verbatim>\<open>NC_s3urlprocess\<close> the descriptor is the caller's
  with six fields written:
  \<^item> the profile is the resolved profile (\<^verbatim>\<open>no\<close> when the resolver gave none);
  \<^item> the service is the one lines 93 to 143 read off the host;
  \<^item> the region is the one lines 93 to 143 take from the host; if they take none, the
    prior descriptor's region; if that is unset too, the default resolver's;
  \<^item> the bucket is the one lines 93 to 143 take from the host; if they take none, the
    first segment of the path; if the path has no segment, the prior descriptor's bucket;
  \<^item> the host is \<^verbatim>\<open>s3.<region>.amazonaws.com\<close> for the S3 service,
    \<^verbatim>\<open>storage.googleapis.com\<close> for the Google service, and the URL's own host for an
    unknown service;
  \<^item> the root key is what \<^verbatim>\<open>NC_join\<close> makes of the segments of the canonical path
    \<^verbatim>\<open>/<bucket>/<rest>\<close> after its first, where \<open>rest\<close> is the segments of the URL's
    path, without the first when it gave the bucket. With a splitter that gives the
    segments of a joined string back, and bucket and \<open>rest\<close> non-empty and free of
    slashes, the root key is what \<^verbatim>\<open>NC_join\<close> makes of \<open>rest\<close>.

  The path-segment list has been freed, and the rebuilt URL is the caller's if a result
  pointer was passed and has been freed otherwise.
\<close>

theorem NC_s3urlprocess_success:
  assumes "NC_s3urlprocess ext h lh url s3 newurlp = (Inr p, h', lh', s3')"
  shows "\<exists>a u d profile0 hs ps b0 r0 h0 sv reg bkt rest hst segs key.
     url = Some a \<and> uri_at h a = Some u \<and> s3 = Some d \<and>
     NC_getactives3profile ext u = Inr profile0 \<and>
     NC_split_delim ext (host u) CHR ''.'' = Inr hs \<and>
     NC_split_delim ext (path u) CHR ''/'' = Inr ps \<and>
     classify_host ext u hs = Inr (b0, r0, h0, sv) \<and>
     (r0 = Some reg \<or> r0 = None \<and> region d = Some reg \<or>
      r0 = None \<and> region d = None \<and> NC_getdefaults3region ext u = Inr (Some reg)) \<and>
     (b0 = Some bkt \<and> rest = ps \<or> b0 = None \<and> ps = bkt # rest \<or>
      b0 = None \<and> ps = [] \<and> rest = [] \<and> bucket d = Some bkt) \<and>
     (sv = NCS3 \<and> hst = ''s3.'' @ reg @ ''.amazonaws.com'' \<or>
      sv = NCS3GS \<and> hst = ''storage.googleapis.com'' \<or>
      sv = NCS3UNK \<and> host u = Some hst) \<and>
     NC_split_delim ext (Some (''/'' @ bkt @ concat (map (\<lambda>seg. ''/'' @ seg) rest))) CHR ''/''
       = Inr segs \<and>
     NC_join ext (drop 1 segs) = Inr key \<and>
     s3' = Some (d\<lparr>profile := Some (case profile0 of None \<Rightarrow> ''no'' | Some p \<Rightarrow> p),
                   bucket := Some bkt, region := Some reg, svc := sv, s3host := Some hst,
                   rootkey := Some key\<rparr>) \<and>
     lh' = lh @ [None] \<and>
     (if newurlp
      then p = Some (length h) \<and>
           h' = h @ [Some (rebuilt_url ext u hst
                             (''/'' @ bkt @ concat (map (\<lambda>seg. ''/'' @ seg) rest)))]
      else p = None \<and> h' = h @ [None]) \<and>
     (splits_joined ext \<and> list_all (\<lambda>seg. seg \<noteq> [] \<and> CHR ''/'' \<notin> set seg) (bkt # rest)
        \<longrightarrow> NC_join ext rest = Inr key)"
proof -
  from assms show ?thesis
  proof (cases rule: NC_s3urlprocess_cases)
    case null
    then show ?thesis by simp
  next
    case (profile a u d e)
    then show ?thesis by simp
  next
    case (rebuild a u d profile0 d1 e)
    then show ?thesis by simp
  next
    case (rebuilt a u d profile0 d1 bkt reg sv hst pth v d3)
    from rebuilt(11) have "\<exists>segs key.
        NC_split_delim ext (Some pth) CHR ''/'' = Inr segs \<and>
        NC_join ext (drop 1 segs) = Inr key \<and>
        s3' = Some (d3\<lparr>rootkey := Some key\<rparr>) \<and>
        (if newurlp then p = Some (length h) \<and> h' = h @ [Some v]
         else p = None \<and> h' = h @ [None])"
      by (elim disjE exE conjE) (simp_all split: if_splits)
    then obtain segs key where
      segs: "NC_split_delim ext (Some pth) CHR ''/'' = Inr segs"
      and key: "NC_join ext (drop 1 segs) = Inr key"
      and s3': "s3' = Some (d3\<lparr>rootkey := Some key\<rparr>)"
      and out: "if newurlp then p = Some (length h) \<and> h' = h @ [Some v]
                else p = None \<and> h' = h @ [None]"
      by blast
    from rebuild_parts_Inr [OF rebuilt(6)]
    obtain hs ps b0 r0 h0 rest where
      hs: "NC_split_delim ext (host u) CHR ''.'' = Inr hs"
      and ps: "NC_split_delim ext (path u) CHR ''/'' = Inr ps"
      and cl: "classify_host ext u hs = Inr (b0, r0, h0, sv)"
      and rr: "resolve_region ext u (Some d1) r0 = Inr reg"
      and rb: "resolve_bucket (Some d1) b0 ps = Inr (bkt, rest)"
      and ho: "Some hst = revised_host sv reg h0"
      and pth: "pth = revised_path bkt rest"
      by blast
    have pth': "pth = ''/'' @ bkt @ concat (map (\<lambda>seg. ''/'' @ seg) rest)"
      by (simp add: pth revised_path_def)
    from resolve_region_origin [OF rr]
    have reg: "r0 = Some reg \<or> r0 = None \<and> region d = Some reg \<or>
      r0 = None \<and> region d = None \<and> NC_getdefaults3region ext u = Inr (Some reg)"
      by (simp add: rebuilt(5))
    from resolve_bucket_origin [OF rb]
    have bkt: "b0 = Some bkt \<and> rest = ps \<or> b0 = None \<and> ps = bkt # rest \<or>
      b0 = None \<and> ps = [] \<and> rest = [] \<and> bucket d = Some bkt"
      by (simp add: rebuilt(5))
    have hst: "sv = NCS3 \<and> hst = ''s3.'' @ reg @ ''.amazonaws.com'' \<or>
      sv = NCS3GS \<and> hst = ''storage.googleapis.com'' \<or>
      sv = NCS3UNK \<and> host u = Some hst"
    proof (cases sv)
      case NCS3UNK
      with ho classify_host_unknown [OF cl] show ?thesis
        by (simp add: revised_host_def)
    next
      case NCS3
      with ho show ?thesis
        by (simp add: revised_host_def AWSHOST_def)
    next
      case NCS3GS
      with ho show ?thesis
        by (simp add: revised_host_def GOOGLEHOST_def)
    qed
    have d': "s3' = Some (d\<lparr>profile := Some (case profile0 of None \<Rightarrow> ''no'' | Some p \<Rightarrow> p),
                   bucket := Some bkt, region := Some reg, svc := sv, s3host := Some hst,
                   rootkey := Some key\<rparr>)"
      by (simp add: s3' rebuilt(9) rebuilt(5))
    have joined: "splits_joined ext \<and>
        list_all (\<lambda>seg. seg \<noteq> [] \<and> CHR ''/'' \<notin> set seg) (bkt # rest)
        \<longrightarrow> NC_join ext rest = Inr key"
    proof
      assume a: "splits_joined ext \<and>
        list_all (\<lambda>seg. seg \<noteq> [] \<and> CHR ''/'' \<notin> set seg) (bkt # rest)"
      then have "NC_split_delim ext (Some (concat (map (\<lambda>seg. ''/'' @ seg) (bkt # rest)))) CHR ''/''
          = Inr (bkt # rest)"
        by (intro splits_joined_path) simp_all
      with segs have "segs = bkt # rest"
        by (simp add: pth')
      with key show "NC_join ext rest = Inr key" by simp
    qed
    from rebuilt(1-4) hs ps cl reg bkt hst segs [unfolded pth'] key d' rebuilt(10)
      out [unfolded rebuilt(7) pth'] joined
    show ?thesis
      by (intro exI conjI)
  qed
qed

theorem NC_s3urlprocess_success_witness:
  "NC_s3urlprocess (spec_ext (Some ''us-east-1''))
     [Some (mk_url ''https'' ''mybucket.s3.us-west-2.amazonaws.com'' ''/a/b/c'')] [] (Some 0)
     (Some calloc_NCS3INFO) True
   = (Inr (Some 1),
      [Some (mk_url ''https'' ''mybucket.s3.us-west-2.amazonaws.com'' ''/a/b/c''),
       Some (mk_url ''https'' ''s3.us-west-2.amazonaws.com'' ''/mybucket/a/b/c'')],
      [None],
      Some \<lparr>s3host = Some ''s3.us-west-2.amazonaws.com'', region = Some ''us-west-2'',
            bucket = Some ''mybucket'', rootkey = Some ''a/b/c'',
            profile = Some ''no'', svc = NCS3\<rparr>) \<and>
   (\<exists>hs b0 r0 h0 sv.
      classify_host (spec_ext (Some ''us-east-1''))
        (mk_url ''https'' ''mybucket.s3.us-west-2.amazonaws.com'' ''/a/b/c'') hs
        = Inr (b0, r0, h0, sv))"
proof -
  have run: "NC_s3urlprocess (spec_ext (Some ''us-east-1''))
     [Some (mk_url ''https'' ''mybucket.s3.us-west-2.amazonaws.com'' ''/a/b/c'')] [] (Some 0)
     (Some calloc_NCS3INFO) True
   = (Inr (Some 1),
      [Some (mk_url ''https'' ''mybucket.s3.us-west-2.amazonaws.com'' ''/a/b/c''),
       Some (mk_url ''https'' ''s3.us-west-2.amazonaws.com'' ''/mybucket/a/b/c'')],
      [None],
      Some \<lparr>s3host = Some ''s3.us-west-2.amazonaws.com'', region = Some ''us-west-2'',
            bucket = Some ''mybucket'', rootkey = Some ''a/b/c'',
            profile = Some ''no'', svc = NCS3\<rparr>)"
    by code_simp
  from NC_s3urlprocess_success [OF run]
  obtain a u hs b0 r0 h0 sv where
    a: "Some (0::nat) = Some a"
    and u: "uri_at [Some (mk_url ''https'' ''mybucket.s3.us-west-2.amazonaws.com'' ''/a/b/c'')] a
              = Some u"
    and cl: "classify_host (spec_ext (Some ''us-east-1'')) u hs = Inr (b0, r0, h0, sv)"
    by blast
  from a u have "u = mk_url ''https'' ''mybucket.s3.us-west-2.amazonaws.com'' ''/a/b/c''"
    by (simp add: uri_at_def)
  with cl have "\<exists>hs b0 r0 h0 sv.
      classify_host (spec_ext (Some ''us-east-1''))
        (mk_url ''https'' ''mybucket.s3.us-west-2.amazonaws.com'' ''/a/b/c'') hs
        = Inr (b0, r0, h0, sv)"
    by blast
  with run show ?thesis by blast
qed

end
